theory Spec2Isabelle
  imports Main
begin

section \<open>Syntax trees\<close>

text \<open>
  The program reads Python source and walks the tree that \<^verbatim>\<open>ast.parse\<close> builds. The
  tree is the model's input. A Python \<^verbatim>\<open>str\<close> is a \<^typ>\<open>string\<close>, one \<^typ>\<open>char\<close> per
  code point (so the model covers texts in the Latin-1 range).

  A constant node's payload is any Python literal value. Of a float, a complex number and
  a bytes object the program observes two things only, the text \<^verbatim>\<open>str()\<close> returns
  and the truth value \<^verbatim>\<open>bool()\<close> returns; those two are what the model stores.
\<close>

datatype pyconst =
    CStr string
  | CInt int
  | CBool bool
  | CNone
  | CFloat string bool
  | CComplex string bool
  | CBytes string bool
  | CEllipsis

datatype cmpop = Eq | NotEq | Lt | LtE | Gt | GtE | Is | IsNot | In | NotIn

text \<open>
  Expression nodes. \<open>Index\<close> is the wrapper Python 3.8 puts around a subscript's index;
  later versions store the index expression itself. \<open>PyList\<close> and \<open>PySet\<close> are
  \<^verbatim>\<open>ast.List\<close> and \<^verbatim>\<open>ast.Set\<close>. \<open>OtherValue\<close> stands for every other node class
  with a field called \<^verbatim>\<open>value\<close> (Starred, Await, Yield, YieldFrom, NamedExpr,
  DictComp, FormattedValue): it holds the child nodes that come before that field, the
  field itself (\<^verbatim>\<open>None\<close> for a bare \<^verbatim>\<open>yield\<close>) and the child nodes that come after
  it. \<open>OtherExpr\<close> stands for every node class with none of the fields the program asks
  for (BinOp, UnaryOp, Lambda, Dict, Slice, an operator, an expression context, a
  comprehension, ...), with its child nodes in field order. A keyword argument is the
  pair of its name (\<^verbatim>\<open>None\<close> for \<^verbatim>\<open>**kw\<close>) and its expression.
\<close>

datatype expr =
    Constant pyconst
  | Name string
  | Attribute expr string
  | Subscript expr expr
  | Index expr
  | Call expr "expr list" "(string option \<times> expr) list"
  | Compare expr "cmpop list" "expr list"
  | Tuple "expr list"
  | PyList "expr list"
  | PySet "expr list"
  | OtherValue "expr list" "expr option" "expr list"
  | OtherExpr "expr list"

text \<open>
  Statements. \<open>Assign\<close> carries its targets, its right-hand side, and the position
  attributes of the right-hand side, the only node whose position the program reads:
  \<^verbatim>\<open>None\<close> when the node has no \<^verbatim>\<open>lineno\<close>/\<^verbatim>\<open>end_lineno\<close> attribute, else
  \<^verbatim>\<open>lineno\<close> and \<^verbatim>\<open>end_lineno\<close> (which may be \<^verbatim>\<open>None\<close>). \<open>Other\<close> is every other
  node that is no expression: a compound statement (if, for, while, with, try, def,
  class, match), a simple one (AugAssign, AnnAssign, Return, Import, ...), the module,
  and the nodes that hold statements inside a compound statement (an exception
  handler, a match case). It carries its child nodes in field order, each an
  expression or again such a node.
\<close>

type_synonym position = "(int \<times> int option) option"

datatype stmt =
    Assign "expr list" expr position
  | Expr expr
  | Other "child list"
and child = E expr | S stmt

text \<open>A Python object held in a variable that may be a node or a plain value.\<close>

datatype pyobj = Node expr | Val pyconst

datatype exn = ValueError | TypeError | IndexError | RecursionError | MemoryError

section \<open>Steps and the extractor's state\<close>

text \<open>A value stored in a step's config: a Python scalar or a list of strings.\<close>

datatype cfgval = Scalar pyconst | Columns "string list"

record step =
  kind :: string
  config :: "(string \<times> cfgval) list"

record extractor =
  lines :: "string list"
  steps :: "step list"
  fallback_to_llm :: bool
  df_name :: string

section \<open>Python built-ins the program calls\<close>

text \<open>\<^verbatim>\<open>str.splitlines()\<close>: the line boundaries of \<^verbatim>\<open>str\<close> in the Latin-1 range.\<close>

definition is_linebreak :: "char \<Rightarrow> bool" where
  "is_linebreak c = (of_char c \<in> {10, 11, 12, 13, 28, 29, 30, 133 :: nat})"

fun split_from :: "string \<Rightarrow> string \<Rightarrow> string list" where
  "split_from cur [] = (if cur = [] then [] else [rev cur])"
| "split_from cur [c] = (if is_linebreak c then [rev cur] else [rev (c # cur)])"
| "split_from cur (c # d # cs) =
     (if of_char c = (13 :: nat) \<and> of_char d = (10 :: nat) then rev cur # split_from [] cs
      else if is_linebreak c then rev cur # split_from [] (d # cs)
      else split_from (c # cur) (d # cs))"

definition splitlines :: "string \<Rightarrow> string list" where
  "splitlines s = split_from [] s"

text \<open>\<^verbatim>\<open>str.strip()\<close>: drops the characters for which \<^verbatim>\<open>str.isspace\<close> holds.\<close>

definition is_space :: "char \<Rightarrow> bool" where
  "is_space c = (of_char c \<in> {9, 10, 11, 12, 13, 28, 29, 30, 31, 32, 133, 160 :: nat})"

definition strip :: "string \<Rightarrow> string" where
  "strip s = rev (dropWhile is_space (rev (dropWhile is_space s)))"

text \<open>\<^verbatim>\<open>" ".join(xs)\<close>\<close>

fun join_space :: "string list \<Rightarrow> string" where
  "join_space [] = []"
| "join_space [x] = x"
| "join_space (x # y # ys) = x @ '' '' @ join_space (y # ys)"

text \<open>\<^verbatim>\<open>xs[start:end]\<close>: a negative bound counts from the end, and both are clipped.\<close>

definition clip :: "int \<Rightarrow> int \<Rightarrow> int" where
  "clip n i = (if i < 0 then max 0 (n + i) else min n i)"

definition py_slice :: "'a list \<Rightarrow> int \<Rightarrow> int \<Rightarrow> 'a list" where
  "py_slice xs start stop =
     (let n = int (length xs); s = clip n start; e = clip n stop
      in take (nat (e - s)) (drop (nat s) xs))"

text \<open>
  \<^verbatim>\<open>str(v)\<close>. Decimal conversion of an \<^verbatim>\<open>int\<close> raises \<^verbatim>\<open>ValueError\<close> when the
  number has more digits than the interpreter's limit \<open>lim\<close>
  (\<^verbatim>\<open>sys.get_int_max_str_digits()\<close>: 4300 by default, never below 640, and 0 when
  the limit is switched off or the interpreter has none).
\<close>

definition digit_char :: "nat \<Rightarrow> char" where
  "digit_char d = char_of (48 + d)"

fun show_nat :: "nat \<Rightarrow> string" where
  "show_nat n = (if n < 10 then [digit_char n] else show_nat (n div 10) @ [digit_char (n mod 10)])"

declare show_nat.simps [simp del]

definition show_int :: "int \<Rightarrow> string" where
  "show_int i = (if i < 0 then CHR ''-'' # show_nat (nat (- i)) else show_nat (nat i))"

definition exceeds_digits :: "nat \<Rightarrow> int \<Rightarrow> bool" where
  "exceeds_digits lim i = (0 < lim \<and> 10 ^ lim \<le> \<bar>i\<bar>)"

definition py_str :: "nat \<Rightarrow> pyconst \<Rightarrow> exn + string" where
  "py_str lim c =
     (case c of
        CStr s \<Rightarrow> Inr s
      | CInt i \<Rightarrow> if exceeds_digits lim i then Inl ValueError else Inr (show_int i)
      | CBool b \<Rightarrow> Inr (if b then ''True'' else ''False'')
      | CNone \<Rightarrow> Inr ''None''
      | CFloat s _ \<Rightarrow> Inr s
      | CComplex s _ \<Rightarrow> Inr s
      | CBytes s _ \<Rightarrow> Inr s
      | CEllipsis \<Rightarrow> Inr ''Ellipsis'')"

text \<open>\<^verbatim>\<open>bool(v)\<close>\<close>

definition py_bool :: "pyconst \<Rightarrow> bool" where
  "py_bool c =
     (case c of
        CStr s \<Rightarrow> s \<noteq> []
      | CInt i \<Rightarrow> i \<noteq> 0
      | CBool b \<Rightarrow> b
      | CNone \<Rightarrow> False
      | CFloat _ b \<Rightarrow> b
      | CComplex _ b \<Rightarrow> b
      | CBytes _ b \<Rightarrow> b
      | CEllipsis \<Rightarrow> True)"

text \<open>
  \<^verbatim>\<open>s or d\<close> and the truth value of \<^verbatim>\<open>s\<close>, for \<^verbatim>\<open>s\<close> an optional string:
  \<^verbatim>\<open>None\<close> and the empty string are false.
\<close>

definition truthy :: "string option \<Rightarrow> bool" where
  "truthy s = (case s of None \<Rightarrow> False | Some x \<Rightarrow> x \<noteq> [])"

definition or_str :: "string option \<Rightarrow> string \<Rightarrow> string" where
  "or_str s d = (case s of None \<Rightarrow> d | Some x \<Rightarrow> if x = [] then d else x)"

definition or_const :: "string option \<Rightarrow> pyconst \<Rightarrow> pyconst" where
  "or_const s d = (case s of None \<Rightarrow> d | Some x \<Rightarrow> if x = [] then d else CStr x)"

text \<open>An optional string as the Python object it is.\<close>

definition opt_const :: "string option \<Rightarrow> pyconst" where
  "opt_const s = (case s of None \<Rightarrow> CNone | Some x \<Rightarrow> CStr x)"

text \<open>
  \<^verbatim>\<open>getattr(node, "value")\<close> where \<^verbatim>\<open>hasattr(node, "value")\<close>, and
  \<^verbatim>\<open>getattr(node, "attr", None)\<close>.
\<close>

fun value_attr :: "expr \<Rightarrow> pyobj option" where
  "value_attr (Constant c) = Some (Val c)"
| "value_attr (Attribute v _) = Some (Node v)"
| "value_attr (Subscript v _) = Some (Node v)"
| "value_attr (Index v) = Some (Node v)"
| "value_attr (OtherValue _ (Some v) _) = Some (Node v)"
| "value_attr (OtherValue _ None _) = Some (Val CNone)"
| "value_attr _ = None"

fun attr_of :: "expr \<Rightarrow> string option" where
  "attr_of (Attribute _ a) = Some a"
| "attr_of _ = None"

text \<open>
  \<^verbatim>\<open>if hasattr(slc, "value"): slc = slc.value\<close>, written to unwrap an \<open>Index\<close>; it
  unwraps every node that has the field.
\<close>

definition unwrap :: "expr \<Rightarrow> pyobj" where
  "unwrap slc = (case value_attr slc of Some v \<Rightarrow> v | None \<Rightarrow> Node slc)"

section \<open>The extractors\<close>

definition FILTER_OPS :: "cmpop \<rightharpoonup> string" where
  "FILTER_OPS = map_of
     [(Eq, ''eq''), (NotEq, ''neq''), (Lt, ''lt''), (LtE, ''lt''), (Gt, ''gt''), (GtE, ''gt'')]"

fun get_constant_value :: "expr \<Rightarrow> pyconst" where
  "get_constant_value (Constant c) = c"
| "get_constant_value _ = CNone"

fun get_string_from_node :: "expr \<Rightarrow> string option" where
  "get_string_from_node (Constant (CStr s)) = Some s"
| "get_string_from_node (Subscript _ slc) = get_string_from_node slc"
| "get_string_from_node (Index v) = get_string_from_node v"
| "get_string_from_node _ = None"

text \<open>The loop of \<^verbatim>\<open>get_column_list\<close>: the elements that resolve, in order.\<close>

fun resolved :: "expr list \<Rightarrow> string list" where
  "resolved [] = []"
| "resolved (e # es) =
     (case get_string_from_node e of
        Some s \<Rightarrow> s # resolved es
      | None \<Rightarrow> resolved es)"

definition cols_or_none :: "expr list \<Rightarrow> string list option" where
  "cols_or_none elts = (let cols = resolved elts in if cols = [] then None else Some cols)"

definition get_column_list :: "expr \<Rightarrow> string list option" where
  "get_column_list node =
     (case node of
        Subscript _ slc \<Rightarrow>
          (case unwrap slc of
             Node (Tuple elts) \<Rightarrow> cols_or_none elts
           | Node (PyList elts) \<Rightarrow> cols_or_none elts
           | Node (PySet elts) \<Rightarrow> cols_or_none elts
           | _ \<Rightarrow> None)
      | _ \<Rightarrow> None)"

text \<open>
  \<^verbatim>\<open>unparse_simple\<close>, given the node's position attributes. With integer positions
  nothing inside its \<^verbatim>\<open>try\<close> raises.
\<close>

definition unparse_simple :: "position \<Rightarrow> string list \<Rightarrow> string" where
  "unparse_simple pos source_lines =
     (case pos of
        None \<Rightarrow> []
      | Some (lineno, end_lineno) \<Rightarrow>
          (let start = lineno - 1;
               stop = (case end_lineno of
                         None \<Rightarrow> lineno
                       | Some e \<Rightarrow> if e = 0 then lineno else e)
           in strip (join_space (py_slice source_lines start stop))))"

section \<open>The recognizers of \<^verbatim>\<open>visit_Assign\<close>\<close>

text \<open>
  Each block of \<^verbatim>\<open>visit_Assign\<close> that ends in \<^verbatim>\<open>self._add_step(kind, config); return\<close>
  is a function to an optional pair: \<open>Some\<close> the two arguments of the call it makes
  before returning, \<open>None\<close> when control falls through to the next block.
\<close>

type_synonym emitted = "string \<times> (string \<times> cfgval) list"

definition add_step :: "extractor \<Rightarrow> string \<Rightarrow> (string \<times> cfgval) list \<Rightarrow> extractor" where
  "add_step self k c = self\<lparr>steps := steps self @ [\<lparr>kind = k, config = c\<rparr>]\<rparr>"

text \<open>
  \<^verbatim>\<open>df = df[df["col"] op value]\<close>. \<^verbatim>\<open>slice_val.ops[0]\<close> raises \<^verbatim>\<open>IndexError\<close> on an
  empty operator list (a tree the parser never builds); \<^verbatim>\<open>str(val)\<close> may raise.
\<close>

definition filter_idiom :: "nat \<Rightarrow> expr \<Rightarrow> exn + emitted option" where
  "filter_idiom lim slc =
     (case unwrap slc of
        Node (Compare left ops comparators) \<Rightarrow>
          (case comparators of
             [right] \<Rightarrow>
               (case ops of
                  [] \<Rightarrow> Inl IndexError
                | op # _ \<Rightarrow>
                    (case get_string_from_node left of
                       None \<Rightarrow> Inr None
                     | Some col \<Rightarrow>
                         if col = [] then Inr None
                         else
                           (case FILTER_OPS op of
                              None \<Rightarrow> Inr None
                            | Some convoy_op \<Rightarrow>
                                (let val = get_constant_value right in
                                 if val = CNone then Inr None
                                 else
                                   (case py_str lim val of
                                      Inl e \<Rightarrow> Inl e
                                    | Inr s \<Rightarrow>
                                        Inr (Some (''filter'',
                                          [(''column'', Scalar (CStr col)),
                                           (''operator'', Scalar (CStr convoy_op)),
                                           (''value'', Scalar (CStr s))])))))))
           | _ \<Rightarrow> Inr None)
      | _ \<Rightarrow> Inr None)"

text \<open>\<^verbatim>\<open>df = df[["a","b"]]\<close>\<close>

definition select_idiom :: "expr \<Rightarrow> emitted option" where
  "select_idiom v =
     (case get_column_list v of
        None \<Rightarrow> None
      | Some list_cols \<Rightarrow> Some (''select'', [(''columns'', Columns list_cols)]))"

text \<open>\<^verbatim>\<open>df = pd.read_csv(...)\<close> or \<^verbatim>\<open>pandas.read_csv(...)\<close>\<close>

definition read_csv_idiom :: "expr \<Rightarrow> expr list \<Rightarrow> emitted option" where
  "read_csv_idiom func args =
     (case func of
        Attribute fv a \<Rightarrow>
          if a = ''read_csv'' then
            (let name = (case fv of Name i \<Rightarrow> Some i | _ \<Rightarrow> None) in
             if name = Some ''pd'' \<or> name = Some ''pandas'' then
               (let fname = (case args of
                               [] \<Rightarrow> []
                             | arg0 # _ \<Rightarrow> or_str (get_string_from_node arg0) [])
                in Some (''dataSource'',
                     [(''fileName'', Scalar (CStr (or_str (Some fname) ''data.csv'')))]))
             else None)
          else None
      | _ \<Rightarrow> None)"

text \<open>
  \<^verbatim>\<open>df = df.groupby(...)\<close>. \<^verbatim>\<open>group_col\<close> is whatever Python object the first
  argument yields: any constant's payload, or an optional string.
\<close>

definition by_keyword :: "string option \<times> expr \<Rightarrow> pyconst \<Rightarrow> pyconst" where
  "by_keyword kw group_col =
     (if fst kw = Some ''by'' then or_const (get_string_from_node (snd kw)) group_col
      else group_col)"

definition groupby_idiom ::
  "expr \<Rightarrow> expr list \<Rightarrow> (string option \<times> expr) list \<Rightarrow> emitted option" where
  "groupby_idiom func args keywords =
     (case func of
        Attribute fv a \<Rightarrow>
          if a = ''groupby'' then
            (let group_col = (case args of
                                [] \<Rightarrow> CStr []
                              | arg0 # _ \<Rightarrow>
                                  (case arg0 of
                                     Constant c \<Rightarrow> c
                                   | _ \<Rightarrow> opt_const (get_string_from_node arg0)));
                 agg_col = (case fv of
                              Subscript _ slc \<Rightarrow> or_const (get_string_from_node slc) group_col
                            | _ \<Rightarrow> group_col);
                 group_col2 = fold by_keyword keywords group_col
             in Some (''groupBy'',
                  [(''groupByColumn'', Scalar group_col2),
                   (''aggregateColumn'', Scalar agg_col),
                   (''aggregation'', Scalar (CStr ''count''))]))
          else None
      | _ \<Rightarrow> None)"

text \<open>
  \<^verbatim>\<open>.sum()\<close>, \<^verbatim>\<open>.mean()\<close>, ... after groupby. \<open>walk\<close> is the \<^verbatim>\<open>while prev:\<close> loop, which
  follows the \<^verbatim>\<open>value\<close> fields; its result is \<^verbatim>\<open>(group_col, agg_col)\<close>. A call has no
  field \<^verbatim>\<open>value\<close>, so the loop ends at the first call it meets, and a constant's payload
  is no node, so nothing is recorded after a constant.
\<close>

fun walk :: "expr \<Rightarrow> string \<Rightarrow> string \<Rightarrow> string \<times> string" where
  "walk (Call f args kws) group_col agg_col =
     (if attr_of f = Some ''groupby'' then
        ((case args of
            [] \<Rightarrow> group_col
          | arg0 # _ \<Rightarrow> or_str (get_string_from_node arg0) []), agg_col)
      else (group_col, agg_col))"
| "walk (Subscript v slc) group_col agg_col =
     walk v group_col (or_str (get_string_from_node slc) group_col)"
| "walk (Attribute v _) group_col agg_col = walk v group_col agg_col"
| "walk (Index v) group_col agg_col = walk v group_col agg_col"
| "walk (OtherValue _ (Some v) _) group_col agg_col = walk v group_col agg_col"
| "walk _ group_col agg_col = (group_col, agg_col)"

definition agg_idiom :: "expr \<Rightarrow> emitted option" where
  "agg_idiom func =
     (case func of
        Attribute fv agg_method \<Rightarrow>
          if agg_method \<in> set [''sum'', ''mean'', ''count'', ''min'', ''max''] then
            (case walk fv [] [] of
               (group_col, agg_col) \<Rightarrow>
                 Some (''groupBy'',
                   [(''groupByColumn'', Scalar (CStr group_col)),
                    (''aggregateColumn'', Scalar (CStr (or_str (Some agg_col) group_col))),
                    (''aggregation'',
                       Scalar (CStr (if agg_method = ''mean'' then ''avg'' else agg_method)))]))
          else None
      | _ \<Rightarrow> None)"

text \<open>\<^verbatim>\<open>df = df.sort_values(...)\<close>\<close>

definition sort_keyword :: "string option \<times> expr \<Rightarrow> string \<times> bool \<Rightarrow> string \<times> bool" where
  "sort_keyword kw acc =
     (case acc of
        (col, ascending) \<Rightarrow>
          (let col2 = (if fst kw = Some ''by'' then or_str (get_string_from_node (snd kw)) col
                       else col);
               ascending2 = (if fst kw = Some ''ascending'' then
                               (let v = get_constant_value (snd kw) in
                                if v = CNone then ascending else py_bool v)
                             else ascending)
           in (col2, ascending2)))"

definition sort_idiom ::
  "expr \<Rightarrow> expr list \<Rightarrow> (string option \<times> expr) list \<Rightarrow> emitted option" where
  "sort_idiom func args keywords =
     (case func of
        Attribute _ a \<Rightarrow>
          if a = ''sort_values'' then
            (let col = (case args of
                          [] \<Rightarrow> []
                        | arg0 # _ \<Rightarrow> or_str (get_string_from_node arg0) [])
             in case fold sort_keyword keywords (col, True) of
                  (col2, ascending) \<Rightarrow>
                    Some (''sort'',
                      [(''column'', Scalar (CStr col2)),
                       (''direction'', Scalar (CStr (if ascending then ''asc'' else ''desc'')))]))
          else None
      | _ \<Rightarrow> None)"

text \<open>
  \<^verbatim>\<open>df.melt(...)\<close>. The loop state is
  \<^verbatim>\<open>(id_vars, value_vars, value_name, var_name)\<close>; \<open>named\<close> collects the elements
  that resolve to a non-empty string (\<^verbatim>\<open>if s:\<close>).
\<close>

definition named :: "expr list \<Rightarrow> string list" where
  "named elts = filter (\<lambda>s. s \<noteq> []) (resolved elts)"

definition melt_keyword ::
  "string option \<times> expr \<Rightarrow> string list \<times> string list \<times> string \<times> string
     \<Rightarrow> string list \<times> string list \<times> string \<times> string" where
  "melt_keyword kw acc =
     (case acc of
        (id_vars, value_vars, value_name, var_name) \<Rightarrow>
          if fst kw = Some ''id_vars'' then
            ((case snd kw of
                PyList elts \<Rightarrow> id_vars @ named elts
              | Tuple elts \<Rightarrow> id_vars @ named elts
              | e \<Rightarrow> id_vars @ named [e]), value_vars, value_name, var_name)
          else if fst kw = Some ''value_vars'' then
            (id_vars,
             (case snd kw of
                PyList elts \<Rightarrow> value_vars @ named elts
              | Tuple elts \<Rightarrow> value_vars @ named elts
              | _ \<Rightarrow> value_vars), value_name, var_name)
          else if fst kw = Some ''value_name'' then
            (id_vars, value_vars, or_str (get_string_from_node (snd kw)) value_name, var_name)
          else if fst kw = Some ''var_name'' then
            (id_vars, value_vars, value_name, or_str (get_string_from_node (snd kw)) var_name)
          else acc)"

definition melt_idiom :: "expr \<Rightarrow> (string option \<times> expr) list \<Rightarrow> emitted option" where
  "melt_idiom func keywords =
     (case func of
        Attribute _ a \<Rightarrow>
          if a = ''melt'' then
            (case fold melt_keyword keywords ([], [], ''value'', ''variable'') of
               (id_vars, value_vars, value_name, var_name) \<Rightarrow>
                 if value_vars \<noteq> [] then
                   Some (''reshape'',
                     [(''keyColumn'', Scalar (CStr var_name)),
                      (''valueColumn'', Scalar (CStr value_name)),
                      (''pivotColumns'', Columns value_vars)])
                 else None)
          else None
      | _ \<Rightarrow> None)"

text \<open>The first block that returns decides; the order is the source's.\<close>

definition first_some :: "'a option list \<Rightarrow> 'a option" where
  "first_some xs = (case filter (\<lambda>x. x \<noteq> None) xs of [] \<Rightarrow> None | x # _ \<Rightarrow> x)"

definition rhs_step :: "nat \<Rightarrow> expr \<Rightarrow> exn + emitted option" where
  "rhs_step lim v =
     (case v of
        Subscript _ slc \<Rightarrow>
          (case filter_idiom lim slc of
             Inl e \<Rightarrow> Inl e
           | Inr (Some x) \<Rightarrow> Inr (Some x)
           | Inr None \<Rightarrow> Inr (select_idiom v))
      | Call func args keywords \<Rightarrow>
          Inr (first_some
                [read_csv_idiom func args,
                 groupby_idiom func args keywords,
                 agg_idiom func,
                 sort_idiom func args keywords,
                 melt_idiom func keywords])
      | _ \<Rightarrow> Inr None)"

section \<open>The generic walk and the interpreter's stack\<close>

text \<open>
  \<^verbatim>\<open>NodeVisitor.generic_visit\<close> calls \<^verbatim>\<open>self.visit\<close> on every child node, and
  \<^verbatim>\<open>visit\<close> calls the method for the node's class, \<^verbatim>\<open>generic_visit\<close> by default. Inside
  an expression no class has a method of the extractor, so the walk changes nothing
  there; but it nests two frames per level of the tree, and the interpreter raises
  \<^verbatim>\<open>RecursionError\<close> when a call would exceed its recursion limit. The model counts
  frames: a budget \<open>r\<close> is the number of frames that may still be pushed.

  \<open>children\<close> lists the child nodes of an expression node in field order. An expression
  context (\<^verbatim>\<open>Load\<close>, \<^verbatim>\<open>Store\<close>) and an operator are nodes without children, written
  \<open>leaf\<close>; a keyword argument is a node with its expression as the one child.
\<close>

definition leaf :: expr where
  "leaf = OtherExpr []"

fun children :: "expr \<Rightarrow> expr list" where
  "children (Constant _) = []"
| "children (Name _) = [leaf]"
| "children (Attribute v _) = [v, leaf]"
| "children (Subscript v slc) = [v, slc, leaf]"
| "children (Index v) = [v]"
| "children (Call func args keywords) =
     func # args @ map (\<lambda>kw. OtherExpr [snd kw]) keywords"
| "children (Compare left ops comparators) = left # map (\<lambda>_. leaf) ops @ comparators"
| "children (Tuple elts) = elts @ [leaf]"
| "children (PyList elts) = elts @ [leaf]"
| "children (PySet elts) = elts"
| "children (OtherValue before v after) =
     before @ (case v of None \<Rightarrow> [] | Some x \<Rightarrow> [x]) @ after"
| "children (OtherExpr cs) = cs"

text \<open>
  \<^verbatim>\<open>self.visit(node)\<close> on an expression node with \<open>r\<close> frames left: \<open>True\<close> when it
  returns, \<open>False\<close> when \<^verbatim>\<open>RecursionError\<close> is raised. \<^verbatim>\<open>visit\<close> takes one frame and the
  method it calls a second one; \<^verbatim>\<open>generic_visit\<close> runs the generator
  \<^verbatim>\<open>iter_fields\<close>, which takes one more while it runs, and visits the children. For a
  constant, \<^verbatim>\<open>visit\<close> calls \<^verbatim>\<open>NodeVisitor.visit_Constant\<close>, which calls
  \<^verbatim>\<open>generic_visit\<close> (Python 3.8 to 3.13).
\<close>

fun visit_expr :: "nat \<Rightarrow> expr \<Rightarrow> bool" where
  "visit_expr (Suc (Suc b)) e =
     (case e of
        Constant _ \<Rightarrow> 1 < b
      | _ \<Rightarrow> 0 < b \<and> list_all (visit_expr b) (children e))"
| "visit_expr _ e = False"

text \<open>
  \<^verbatim>\<open>self.generic_visit(node)\<close> called from a method of the extractor that has \<open>b\<close>
  frames left, for a statement whose child nodes are the expressions \<open>es\<close>: the state
  is returned as it is, or \<^verbatim>\<open>RecursionError\<close> is raised.
\<close>

definition generic_visit :: "nat \<Rightarrow> expr list \<Rightarrow> extractor \<Rightarrow> exn + extractor" where
  "generic_visit b es self =
     (case b of
        0 \<Rightarrow> Inl RecursionError
      | Suc b2 \<Rightarrow>
          if 0 < b2 \<and> list_all (visit_expr b2) es then Inr self else Inl RecursionError)"

section \<open>The visitor\<close>

definition PipelineExtractor :: "string \<Rightarrow> extractor" where
  "PipelineExtractor source =
     \<lparr>lines = splitlines source, steps = [], fallback_to_llm = False, df_name = ''df''\<rparr>"

text \<open>Lines 273 to 275: an unrecognized assignment to the tracked name.\<close>

definition unrecognized :: "extractor \<Rightarrow> expr \<Rightarrow> extractor" where
  "unrecognized self target =
     (case target of
        Name i \<Rightarrow> if i = df_name self then self\<lparr>fallback_to_llm := True\<rparr> else self
      | _ \<Rightarrow> self)"

text \<open>
  The body of \<^verbatim>\<open>visit_Assign\<close>, run with \<open>b\<close> frames left. The budget is charged for
  the walk, whose depth grows with the tree: the frames of \<^verbatim>\<open>visit\<close>, of the method it
  calls, of \<^verbatim>\<open>generic_visit\<close> and of \<^verbatim>\<open>iter_fields\<close>. The calls the method makes to the
  helper functions and to \<^verbatim>\<open>_add_step\<close> return before the walk goes on and are not
  charged: each needs one frame, \<^verbatim>\<open>get_string_from_node\<close> one per nested subscript,
  so the model and the interpreter differ only for a statement met when fewer frames
  than that are left. The child nodes of an assignment are its targets and its
  right-hand side.
\<close>

definition visit_Assign ::
  "nat \<Rightarrow> nat \<Rightarrow> extractor \<Rightarrow> expr list \<Rightarrow> expr \<Rightarrow> position \<Rightarrow> exn + extractor" where
  "visit_Assign lim b self targets v pos =
     (case targets of
        [target] \<Rightarrow>
          (case rhs_step lim v of
             Inl e \<Rightarrow> Inl e
           | Inr (Some (k, c)) \<Rightarrow> Inr (add_step self k c)
           | Inr None \<Rightarrow>
               (case (case target of
                        Subscript _ _ \<Rightarrow> get_string_from_node target
                      | _ \<Rightarrow> None) of
                  Some col_name \<Rightarrow>
                    (let expr_str = unparse_simple pos (lines self) in
                     if expr_str \<noteq> [] then
                       Inr (add_step self ''computedColumn''
                              [(''newColumnName'', Scalar (CStr col_name)),
                               (''expression'', Scalar (CStr expr_str))])
                     else generic_visit b (targets @ [v])
                            (unrecognized (self\<lparr>fallback_to_llm := True\<rparr>) target))
                | None \<Rightarrow> generic_visit b (targets @ [v]) (unrecognized self target)))
      | _ \<Rightarrow> generic_visit b (targets @ [v]) self)"

text \<open>
  The body of \<^verbatim>\<open>visit_Expr\<close>, run with \<open>b\<close> frames left. The test on \<^verbatim>\<open>plt\<close> stands
  under \<^verbatim>\<open>isinstance(func.value, ast.Attribute)\<close>, as in the source.
\<close>

definition chart_step :: "string \<Rightarrow> expr list \<Rightarrow> (string \<times> cfgval) list" where
  "chart_step chart_attr args =
     (let chart_type = (if chart_attr = ''plot'' then ''line''
                        else if chart_attr = ''scatter'' then ''scatter''
                        else if chart_attr = ''pie'' then ''pie''
                        else ''bar'');
          axes = (case args of
                    [] \<Rightarrow> ([], [])
                  | [a] \<Rightarrow> ([], or_str (get_string_from_node a) [])
                  | a # b # _ \<Rightarrow>
                      (or_str (get_string_from_node a) [], or_str (get_string_from_node b) []))
      in [(''chartType'', Scalar (CStr chart_type)),
          (''xAxis'', Scalar (CStr (fst axes))),
          (''yAxis'', Scalar (CStr (snd axes)))])"

definition visit_Expr :: "nat \<Rightarrow> extractor \<Rightarrow> expr \<Rightarrow> exn + extractor" where
  "visit_Expr b self v =
     (case v of
        Call func args keywords \<Rightarrow>
          (case func of
             Attribute fv chart_attr \<Rightarrow>
               (case fv of
                  Attribute _ _ \<Rightarrow>
                    if attr_of fv = Some ''pyplot''
                       \<or> (case fv of Name i \<Rightarrow> i = ''plt'' | _ \<Rightarrow> False)
                    then
                      (if chart_attr \<in> set [''bar'', ''plot'', ''scatter'', ''pie'']
                       then Inr (add_step self ''chart'' (chart_step chart_attr args))
                       else generic_visit b [v] self)
                    else generic_visit b [v] self
                | _ \<Rightarrow> generic_visit b [v] self)
           | _ \<Rightarrow> generic_visit b [v] self)
      | _ \<Rightarrow> generic_visit b [v] self)"

text \<open>
  \<^verbatim>\<open>NodeVisitor.visit\<close> on a statement with \<open>r\<close> frames left. \<^verbatim>\<open>visit\<close> takes one frame
  and the method it calls a second one: \<^verbatim>\<open>visit_Assign\<close> for an assignment,
  \<^verbatim>\<open>visit_Expr\<close> for an expression statement, and \<^verbatim>\<open>generic_visit\<close> for every other
  node, which runs \<^verbatim>\<open>iter_fields\<close> and visits the children in order. A raised
  exception ends the walk. The exceptions of the model are \<^verbatim>\<open>RecursionError\<close> from the
  walk itself and those the program's own operations raise on the tree at hand
  (\<^verbatim>\<open>ops[0]\<close> on an empty list, \<^verbatim>\<open>str\<close> of an integer beyond the digit limit).
\<close>

fun visit :: "nat \<Rightarrow> nat \<Rightarrow> stmt \<Rightarrow> extractor \<Rightarrow> exn + extractor"
  and visit_children :: "nat \<Rightarrow> nat \<Rightarrow> child list \<Rightarrow> extractor \<Rightarrow> exn + extractor" where
  "visit lim (Suc (Suc b)) (Assign targets v pos) self = visit_Assign lim b self targets v pos"
| "visit lim (Suc (Suc b)) (Expr v) self = visit_Expr b self v"
| "visit lim (Suc (Suc b)) (Other cs) self =
     (if b = 0 then Inl RecursionError else visit_children lim b cs self)"
| "visit lim _ s self = Inl RecursionError"
| "visit_children lim b [] self = Inr self"
| "visit_children lim b (E e # cs) self =
     (if visit_expr b e then visit_children lim b cs self else Inl RecursionError)"
| "visit_children lim b (S s # cs) self =
     (case visit lim b s self of
        Inl e \<Rightarrow> Inl e
      | Inr self2 \<Rightarrow> visit_children lim b cs self2)"

section \<open>The program\<close>

text \<open>
  What \<^verbatim>\<open>ast.parse(source)\<close> did: it returned a module (its body), raised
  \<^verbatim>\<open>SyntaxError\<close>, or raised something else (\<^verbatim>\<open>RecursionError\<close> or \<^verbatim>\<open>MemoryError\<close> on
  deep nesting, \<^verbatim>\<open>ValueError\<close> on a null byte in the Python versions that do not
  report it as a syntax error).
\<close>

datatype parse_result = Parsed "stmt list" | SyntaxError | ParseRaised exn

record node =
  type :: string
  config :: "(string \<times> cfgval) list"

record response =
  steps :: "node list"
  fallbackToLlm :: bool

text \<open>What the caller sees: the document printed, or an exception that left \<^verbatim>\<open>main\<close>.\<close>

datatype outcome = Printed response | Escaped exn

text \<open>
  \<^verbatim>\<open>print(json.dumps(result))\<close>. \<^verbatim>\<open>json.dumps\<close> raises \<^verbatim>\<open>TypeError\<close> on a bytes object,
  a complex number and \<^verbatim>\<open>Ellipsis\<close>, and \<^verbatim>\<open>ValueError\<close> on an \<^verbatim>\<open>int\<close> beyond the digit
  limit; the first value that raises, in document order, decides.
\<close>

definition dumps_raises :: "nat \<Rightarrow> cfgval \<Rightarrow> exn option" where
  "dumps_raises lim x =
     (case x of
        Columns _ \<Rightarrow> None
      | Scalar c \<Rightarrow>
          (case c of
             CInt i \<Rightarrow> if exceeds_digits lim i then Some ValueError else None
           | CComplex _ _ \<Rightarrow> Some TypeError
           | CBytes _ _ \<Rightarrow> Some TypeError
           | CEllipsis \<Rightarrow> Some TypeError
           | _ \<Rightarrow> None))"

definition print_json :: "nat \<Rightarrow> response \<Rightarrow> outcome" where
  "print_json lim r =
     (case first_some (map (\<lambda>kv. dumps_raises lim (snd kv))
                          (concat (map node.config (response.steps r)))) of
        Some e \<Rightarrow> Escaped e
      | None \<Rightarrow> Printed r)"

definition failure :: response where
  "failure = \<lparr>steps = [], fallbackToLlm = True\<rparr>"

text \<open>
  \<^verbatim>\<open>main\<close>. \<open>lim\<close> is the digit limit and \<open>rec\<close> the number of frames left when
  \<^verbatim>\<open>main\<close> calls \<^verbatim>\<open>extractor.visit(tree)\<close>: the recursion limit (1000 unless the
  environment sets another) less the two frames of the module and of \<^verbatim>\<open>main\<close>. The
  tree is the module node, whose children are the statements of its body.
\<close>

definition main :: "nat \<Rightarrow> nat \<Rightarrow> string \<Rightarrow> parse_result \<Rightarrow> outcome" where
  "main lim rec source tree =
     (case tree of
        SyntaxError \<Rightarrow> print_json lim failure
      | ParseRaised e \<Rightarrow> Escaped e
      | Parsed body \<Rightarrow>
          (case visit lim rec (Other (map S body)) (PipelineExtractor source) of
             Inl e \<Rightarrow> print_json lim failure
           | Inr extractor \<Rightarrow>
               (let nodes = map (\<lambda>s. \<lparr>type = kind s, config = step.config s\<rparr>)
                                (extractor.steps extractor);
                    result = \<lparr>steps = nodes,
                              fallbackToLlm = (fallback_to_llm extractor
                                               \<or> length (extractor.steps extractor) = 0)\<rparr>
                in print_json lim result)))"

section \<open>Statement shapes named by the specification\<close>

text \<open>\<^verbatim>\<open>df = df[df[c] op v]\<close>, for a column name \<open>c\<close> and a literal \<open>v\<close>.\<close>

definition filter_assign :: "string \<Rightarrow> cmpop \<Rightarrow> pyconst \<Rightarrow> position \<Rightarrow> stmt" where
  "filter_assign c op v pos =
     Assign [Name ''df'']
       (Subscript (Name ''df'')
          (Compare (Subscript (Name ''df'') (Constant (CStr c))) [op] [Constant v])) pos"

text \<open>\<^verbatim>\<open>df = df[[e1, ..., en]]\<close>\<close>

definition select_assign :: "expr list \<Rightarrow> position \<Rightarrow> stmt" where
  "select_assign es pos = Assign [Name ''df''] (Subscript (Name ''df'') (PyList es)) pos"

text \<open>
  \<^verbatim>\<open>target = inner<wrappers>.m(args, kws)\<close>: a method call on a call \<open>inner\<close> that is
  wrapped in subscripts \<^verbatim>\<open>[slc]\<close> and attribute accesses \<^verbatim>\<open>.a\<close>; the list has the
  outermost wrapper first. \<open>selection\<close> is the subscript that stands directly on the
  result of \<open>inner\<close> (the innermost one).
\<close>

datatype wrapper = Sel expr | Attr string

fun wrap :: "wrapper list \<Rightarrow> expr \<Rightarrow> expr" where
  "wrap [] g = g"
| "wrap (Sel slc # ws) g = Subscript (wrap ws g) slc"
| "wrap (Attr a # ws) g = Attribute (wrap ws g) a"

fun selection :: "wrapper list \<Rightarrow> expr option" where
  "selection [] = None"
| "selection (Sel slc # ws) = (case selection ws of None \<Rightarrow> Some slc | Some x \<Rightarrow> Some x)"
| "selection (Attr _ # ws) = selection ws"

definition chain_assign ::
  "expr \<Rightarrow> expr \<Rightarrow> wrapper list \<Rightarrow> string \<Rightarrow> expr list \<Rightarrow> (string option \<times> expr) list
     \<Rightarrow> position \<Rightarrow> stmt" where
  "chain_assign target inner ws m args kws pos =
     Assign [target] (Call (Attribute (wrap ws inner) m) args kws) pos"

text \<open>The string an optional string stands for where \<^verbatim>\<open>or ""\<close> follows it.\<close>

definition str_or_empty :: "string option \<Rightarrow> string" where
  "str_or_empty s = (case s of None \<Rightarrow> [] | Some x \<Rightarrow> x)"

text \<open>
  Every statement node the visitor reaches: a node, and for one that holds child nodes
  the statements among them, in the order of the walk.
\<close>

fun statements :: "stmt \<Rightarrow> stmt list"
  and child_statements :: "child list \<Rightarrow> stmt list" where
  "statements (Other cs) = Other cs # child_statements cs"
| "statements (Assign ts v pos) = [Assign ts v pos]"
| "statements (Expr v) = [Expr v]"
| "child_statements [] = []"
| "child_statements (E e # cs) = child_statements cs"
| "child_statements (S s # cs) = statements s @ child_statements cs"

text \<open>
  The two events that set the flag, read off a single statement: it is an assignment
  with one target, none of the recognizers of the right-hand side matched, and either
  the target is the bare tracked name, or the target is a subscript that names a
  column and the text reconstructed for the right-hand side is empty.
\<close>

definition sets_flag :: "nat \<Rightarrow> string list \<Rightarrow> string \<Rightarrow> stmt \<Rightarrow> bool" where
  "sets_flag lim source_lines tracked s =
     (case s of
        Assign targets v pos \<Rightarrow>
          (case targets of
             [target] \<Rightarrow>
               rhs_step lim v = Inr None
               \<and> (case target of
                     Name i \<Rightarrow> i = tracked
                   | Subscript _ _ \<Rightarrow>
                       get_string_from_node target \<noteq> None
                       \<and> unparse_simple pos source_lines = []
                   | _ \<Rightarrow> False)
           | _ \<Rightarrow> False)
      | _ \<Rightarrow> False)"

text \<open>The statements of a parsed program, and whether its traversal raises.\<close>

definition visited :: "parse_result \<Rightarrow> stmt list" where
  "visited tree = (case tree of Parsed body \<Rightarrow> child_statements (map S body) | _ \<Rightarrow> [])"

definition traversal_raises :: "nat \<Rightarrow> nat \<Rightarrow> string \<Rightarrow> parse_result \<Rightarrow> bool" where
  "traversal_raises lim rec source tree =
     (case tree of
        Parsed body \<Rightarrow>
          (case visit lim rec (Other (map S body)) (PipelineExtractor source) of
             Inl _ \<Rightarrow> True
           | Inr _ \<Rightarrow> False)
      | _ \<Rightarrow> False)"

text \<open>
  The event as the specification words it: a statement assigns to the tracked name
  (the name is among its targets) and no recognizer of the right-hand side matched.
\<close>

definition assigned_unrecognized :: "nat \<Rightarrow> string \<Rightarrow> stmt \<Rightarrow> bool" where
  "assigned_unrecognized lim tracked s =
     (case s of
        Assign targets v pos \<Rightarrow> Name tracked \<in> set targets \<and> rhs_step lim v = Inr None
      | _ \<Rightarrow> False)"

text \<open>\<^verbatim>\<open>df = pd.read_csv("f")\<close>\<close>

definition read_csv_assign :: "string \<Rightarrow> position \<Rightarrow> stmt" where
  "read_csv_assign f pos =
     Assign [Name ''df''] (Call (Attribute (Name ''pd'') ''read_csv'') [Constant (CStr f)] []) pos"

text \<open>
  The value of an integer literal of 4301 decimal digits (written in hexadecimal, which
  the parser converts without a digit limit).
\<close>

definition huge_literal :: int where
  "huge_literal = 10 ^ 4300"


section \<open>Helper lemmas\<close>

text \<open>The generic walk: unfolding, and a larger budget never hurts.\<close>

lemma visit_expr_unfold:
  "visit_expr r e =
     (\<exists>b. r = Suc (Suc b)
          \<and> (case e of
               Constant _ \<Rightarrow> 1 < b
             | _ \<Rightarrow> 0 < b \<and> list_all (visit_expr b) (children e)))"
  by (cases "(r, e)" rule: visit_expr.cases) simp_all

lemma visit_expr_mono: "visit_expr r e \<Longrightarrow> r \<le> r2 \<Longrightarrow> visit_expr r2 e"
proof (induction r arbitrary: e r2 rule: less_induct)
  case (less r)
  from less.prems(1) obtain b where r: "r = Suc (Suc b)"
    and body: "(case e of
               Constant _ \<Rightarrow> 1 < b
             | _ \<Rightarrow> 0 < b \<and> list_all (visit_expr b) (children e))"
    using visit_expr_unfold [of r e] by blast
  from less.prems(2) r obtain b2 where r2: "r2 = Suc (Suc b2)" and le: "b \<le> b2"
    by (cases r2; cases "r2 - 1") simp_all
  have kids: "list_all (visit_expr b) es \<Longrightarrow> list_all (visit_expr b2) es" for es
    using less.IH [of b _ b2] r le by (simp add: list_all_iff)
  have "(case e of
               Constant _ \<Rightarrow> 1 < b2
             | _ \<Rightarrow> 0 < b2 \<and> list_all (visit_expr b2) (children e))"
    using body le kids [of "children e"] by (cases e) simp_all
  then show ?case
    unfolding r2 by simp
qed

lemma generic_visit_mono:
  "generic_visit b es self = Inr s \<Longrightarrow> b \<le> b2 \<Longrightarrow> generic_visit b2 es self = Inr s"
proof -
  assume a: "generic_visit b es self = Inr s" and le: "b \<le> b2"
  from a obtain c where b: "b = Suc c" and c: "0 < c" "list_all (visit_expr c) es" and s: "s = self"
    by (cases b) (auto simp: generic_visit_def split: if_splits)
  from le b obtain c2 where b2: "b2 = Suc c2" and le2: "c \<le> c2"
    by (cases b2) simp_all
  have "list_all (visit_expr c2) es"
    using c(2) le2 visit_expr_mono by (auto simp: list_all_iff)
  with c(1) le2 show ?thesis
    by (simp add: generic_visit_def b2 s)
qed

lemma generic_visit_cases:
  "generic_visit b es self = Inr self \<or> generic_visit b es self = Inl RecursionError"
  by (simp add: generic_visit_def split: nat.splits)

lemma generic_visit_Inr: "generic_visit b es self = Inr s \<Longrightarrow> s = self"
  using generic_visit_cases [of b es self] by auto

lemma generic_visit_state:
  "generic_visit b es self = Inr s \<Longrightarrow> generic_visit b es self2 = Inr self2"
  by (auto simp: generic_visit_def split: nat.splits if_splits)


lemma generic_visit_ok:
  "0 < b2 \<Longrightarrow> list_all (visit_expr b2) es \<Longrightarrow> generic_visit (Suc b2) es self = Inr self"
  by (simp add: generic_visit_def)

text \<open>Budgets written as numerals.\<close>

lemma n998: "(998::nat) = Suc (Suc 996)"
  by simp

lemma n996: "(996::nat) = Suc (Suc 994)"
  by simp

lemma n994: "(994::nat) = Suc 993"
  by simp

lemma or_str_Nil: "or_str x [] = str_or_empty x"
  by (simp add: or_str_def str_or_empty_def split: option.splits)

text \<open>Digit limits and decimal text without evaluating large powers.\<close>

lemma within_digits:
  assumes "\<bar>i\<bar> < 10 ^ k" and "k \<le> lim"
  shows "\<not> exceeds_digits lim i"
proof -
  have "(10::int) ^ k \<le> 10 ^ lim"
    using assms(2) by (simp add: power_increasing)
  with assms(1) show ?thesis
    unfolding exceeds_digits_def by linarith
qed

lemma py_str_30: "py_str 4300 (CInt 30) = Inr ''30''"
proof -
  have "\<not> exceeds_digits 4300 30"
    by (rule within_digits [of _ 2]) simp_all
  moreover have "show_int 30 = ''30''"
    by code_simp
  ultimately show ?thesis
    by (simp add: py_str_def)
qed

lemma py_str_1: "py_str 4300 (CInt 1) = Inr ''1''"
proof -
  have "\<not> exceeds_digits 4300 1"
    by (rule within_digits [of _ 1]) simp_all
  moreover have "show_int 1 = ''1''"
    by code_simp
  ultimately show ?thesis
    by (simp add: py_str_def)
qed

lemma exceeds_power: "0 < lim \<Longrightarrow> exceeds_digits lim (10 ^ lim)"
  by (simp add: exceeds_digits_def)

lemma exceeds_huge: "exceeds_digits 4300 huge_literal"
  unfolding huge_literal_def by (rule exceeds_power) simp


lemma print_json_failure: "print_json lim failure = Printed failure"
  by (simp add: print_json_def failure_def first_some_def)

lemma print_json_Printed: "print_json lim x = Printed r \<Longrightarrow> r = x"
  by (auto simp: print_json_def split: option.splits)

lemma main_Parsed:
  "main lim rec source (Parsed body) =
     (case visit lim rec (Other (map S body)) (PipelineExtractor source) of
        Inl e \<Rightarrow> Printed failure
      | Inr extractor \<Rightarrow>
          print_json lim
            \<lparr>steps = map (\<lambda>s. \<lparr>type = kind s, config = step.config s\<rparr>)
                       (extractor.steps extractor),
             fallbackToLlm = (fallback_to_llm extractor \<or> extractor.steps extractor = [])\<rparr>)"
  by (simp add: main_def print_json_failure Let_def split: sum.splits)

lemma visit_Other:
  "visit lim rec (Other cs) self =
     (if rec < 3 then Inl RecursionError else visit_children lim (rec - 2) cs self)"
proof (cases rec)
  case 0
  then show ?thesis by simp
next
  case (Suc n)
  then show ?thesis by (cases n) auto
qed

text \<open>The walk over a list of child nodes.\<close>

lemma visit_children_append:
  "visit_children lim b (xs @ ys) self =
     (case visit_children lim b xs self of
        Inl e \<Rightarrow> Inl e
      | Inr self2 \<Rightarrow> visit_children lim b ys self2)"
proof (induction xs arbitrary: self)
  case Nil
  show ?case by simp
next
  case (Cons x xs)
  show ?case
    by (cases x) (simp_all add: Cons.IH split: sum.splits)
qed

lemma visit_children_cong_stmt:
  assumes "\<And>r self. visit lim r a self = visit lim r a2 self"
  shows "visit_children lim b (xs @ S a # ys) self = visit_children lim b (xs @ S a2 # ys) self"
  by (simp add: visit_children_append assms split: sum.splits)

lemma visit_cong_stmt:
  assumes "\<And>r self. visit lim r a self = visit lim r a2 self"
  shows "visit lim rec (Other (map S (pre @ a # post))) self
           = visit lim rec (Other (map S (pre @ a2 # post))) self"
  using visit_children_cong_stmt [of lim a a2 "rec - 2" "map S pre" "map S post" self, OF assms]
  by (simp add: visit_Other)

text \<open>The filter block on a comparison of a column with a literal.\<close>

lemma filter_idiom_Compare:
  "filter_idiom lim (Compare (Subscript d (Constant (CStr c))) [op] [Constant v]) =
     (if c = [] then Inr None
      else case FILTER_OPS op of
             None \<Rightarrow> Inr None
           | Some convoy_op \<Rightarrow>
               if v = CNone then Inr None
               else case py_str lim v of
                      Inl e \<Rightarrow> Inl e
                    | Inr s \<Rightarrow> Inr (Some (''filter'',
                                  [(''column'', Scalar (CStr c)),
                                   (''operator'', Scalar (CStr convoy_op)),
                                   (''value'', Scalar (CStr s))])))"
  by (simp add: filter_idiom_def unwrap_def split: option.splits sum.splits)

lemma rhs_step_Compare:
  "rhs_step lim (Subscript bb (Compare (Subscript d (Constant (CStr c))) [op] [Constant v])) =
     filter_idiom lim (Compare (Subscript d (Constant (CStr c))) [op] [Constant v])"
  by (simp add: rhs_step_def select_idiom_def get_column_list_def unwrap_def
      split: sum.splits option.splits)

text \<open>Assignments to a bare name.\<close>

lemma visit_Assign_Name:
  "visit_Assign lim b self [Name t] v pos =
     (case rhs_step lim v of
        Inl e \<Rightarrow> Inl e
      | Inr None \<Rightarrow> generic_visit b [Name t, v] (unrecognized self (Name t))
      | Inr (Some kc) \<Rightarrow> Inr (add_step self (fst kc) (snd kc)))"
  by (simp add: visit_Assign_def split: sum.splits option.splits prod.splits)

lemma visit_expr_Name: "visit_expr r (Name t) = visit_expr r (Name t2)"
  by (simp add: visit_expr_unfold [of r "Name t"] visit_expr_unfold [of r "Name t2"])

lemma generic_visit_Name:
  "generic_visit b (Name t # es) self = generic_visit b (Name t2 # es) self"
  using visit_expr_Name [of _ t t2] by (simp add: generic_visit_def split: nat.splits)

lemma visit_expr_Compare_op:
  "visit_expr r (Compare l [op] cs) = visit_expr r (Compare l [op2] cs)"
  by (simp add: visit_expr_unfold [of r "Compare l [op] cs"]
      visit_expr_unfold [of r "Compare l [op2] cs"])

lemma visit_expr_Subscript_slice:
  assumes "\<And>r. visit_expr r slc = visit_expr r slc2"
  shows "visit_expr r (Subscript v slc) = visit_expr r (Subscript v slc2)"
  by (simp add: visit_expr_unfold [of r "Subscript v slc"]
      visit_expr_unfold [of r "Subscript v slc2"] assms)

lemma visit_expr_filter_op:
  "visit_expr r (Subscript v (Compare l [op] cs)) = visit_expr r (Subscript v (Compare l [op2] cs))"
  by (rule visit_expr_Subscript_slice) (rule visit_expr_Compare_op)

lemma visit_filter_assign:
  "visit lim (Suc (Suc b)) (filter_assign c op v pos) self =
     (case filter_idiom lim (Compare (Subscript (Name ''df'') (Constant (CStr c))) [op] [Constant v]) of
        Inl e \<Rightarrow> Inl e
      | Inr None \<Rightarrow>
          generic_visit b
            [Name ''df'',
             Subscript (Name ''df'')
               (Compare (Subscript (Name ''df'') (Constant (CStr c))) [op] [Constant v])]
            (unrecognized self (Name ''df''))
      | Inr (Some kc) \<Rightarrow> Inr (add_step self (fst kc) (snd kc)))"
  by (simp add: filter_assign_def visit_Assign_Name rhs_step_Compare)

lemma visit_small: "r < 2 \<Longrightarrow> visit lim r s self = Inl RecursionError"
proof (cases r)
  case 0
  then show ?thesis by simp
next
  case (Suc n)
  assume "r < 2"
  with Suc have "n = 0" by simp
  with Suc show ?thesis by simp
qed

lemma visit_filter_assign_op:
  assumes "FILTER_OPS op = FILTER_OPS op2"
  shows "visit lim r (filter_assign c op v pos) self = visit lim r (filter_assign c op2 v pos) self"
proof (cases "r < 2")
  case True
  then show ?thesis by (simp add: visit_small)
next
  case False
  then obtain b where r: "r = Suc (Suc b)"
    by (cases r; cases "r - 1") simp_all
  have g: "generic_visit b
            [Name ''df'',
             Subscript (Name ''df'')
               (Compare (Subscript (Name ''df'') (Constant (CStr cc))) [op] [Constant vv])] s
        = generic_visit b
            [Name ''df'',
             Subscript (Name ''df'')
               (Compare (Subscript (Name ''df'') (Constant (CStr cc))) [op2] [Constant vv])] s"
    for s cc vv
    using visit_expr_filter_op [of _ "Name ''df''"
        "Subscript (Name ''df'') (Constant (CStr cc))" op "[Constant vv]" op2]
    by (simp add: generic_visit_def split: nat.splits)
  show ?thesis
    unfolding r visit_filter_assign
    by (simp add: filter_idiom_Compare assms g split: sum.splits option.splits)
qed


text \<open>Evaluation at a budget written as a numeral.\<close>

lemma visit_expr_minus:
  "visit_expr r e =
     (2 \<le> r
      \<and> (case e of
            Constant _ \<Rightarrow> 1 < r - 2
          | _ \<Rightarrow> 0 < r - 2 \<and> list_all (visit_expr (r - 2)) (children e)))"
proof (cases "2 \<le> r")
  case True
  then obtain b where r: "r = Suc (Suc b)"
    by (cases r; cases "r - 1") simp_all
  show ?thesis
    unfolding r by (cases e) simp_all
next
  case False
  then have "r = 0 \<or> r = Suc 0"
    by arith
  then show ?thesis
    by auto
qed

lemma visit_minus:
  "2 \<le> r \<Longrightarrow> visit lim r (Assign targets v pos) self = visit_Assign lim (r - 2) self targets v pos"
  "2 \<le> r \<Longrightarrow> visit lim r (Expr v) self = visit_Expr (r - 2) self v"
  by (cases r; cases "r - 1"; simp)+

lemmas run = main_Parsed visit_Other visit_minus visit_Assign_Name generic_visit_def
  visit_expr_minus leaf_def unrecognized_def add_step_def PipelineExtractor_def
  print_json_def first_some_def dumps_raises_def

text \<open>Column lists.\<close>

lemma resolved_map_filter: "resolved es = List.map_filter get_string_from_node es"
  by (induction es) (auto simp: List.map_filter_simps split: option.splits)

lemma resolved_Nil_iff: "(resolved es = []) = (\<forall>e\<in>set es. get_string_from_node e = None)"
  by (induction es) (auto split: option.splits)

lemma get_column_list_PyList:
  "get_column_list (Subscript b (PyList es)) = cols_or_none es"
  by (simp add: get_column_list_def unwrap_def)

lemma filter_idiom_PyList: "filter_idiom lim (PyList es) = Inr None"
  by (simp add: filter_idiom_def unwrap_def)

lemma rhs_step_PyList:
  "rhs_step lim (Subscript b (PyList es)) =
     Inr (if \<forall>e\<in>set es. get_string_from_node e = None then None
          else Some (''select'', [(''columns'', Columns (List.map_filter get_string_from_node es))]))"
  using resolved_Nil_iff [of es]
  by (simp add: rhs_step_def filter_idiom_PyList select_idiom_def get_column_list_PyList
      cols_or_none_def resolved_map_filter Let_def)

text \<open>The chain walk and the aggregation block.\<close>

lemma walk_wrap:
  "walk (wrap ws (Call f cargs ckws)) [] agg_col =
     ((if attr_of f = Some ''groupby''
       then (case cargs of [] \<Rightarrow> [] | arg0 # _ \<Rightarrow> str_or_empty (get_string_from_node arg0))
       else []),
      (case selection ws of
         None \<Rightarrow> agg_col
       | Some slc \<Rightarrow> str_or_empty (get_string_from_node slc)))"
proof (induction ws arbitrary: agg_col)
  case Nil
  show ?case by (simp add: or_str_Nil split: list.splits)
next
  case (Cons w ws)
  show ?case
    by (cases w) (simp_all add: Cons.IH or_str_Nil split: option.splits)
qed

lemma agg_col_cases:
  "or_str (Some (case sel of None \<Rightarrow> [] | Some slc \<Rightarrow> str_or_empty (get_string_from_node slc))) g =
     (case sel of
        None \<Rightarrow> g
      | Some slc \<Rightarrow>
          (case get_string_from_node slc of
             None \<Rightarrow> g
           | Some s \<Rightarrow> if s = [] then g else s))"
  by (simp add: or_str_def str_or_empty_def split: option.splits)

lemma agg_idiom_wrap:
  assumes "m \<in> set [''sum'', ''mean'', ''count'', ''min'', ''max'']"
  shows "agg_idiom (Attribute (wrap ws (Call f cargs ckws)) m) =
     Some (''groupBy'',
       [(''groupByColumn'', Scalar (CStr
           (if attr_of f = Some ''groupby''
            then (case cargs of [] \<Rightarrow> [] | arg0 # _ \<Rightarrow> str_or_empty (get_string_from_node arg0))
            else []))),
        (''aggregateColumn'', Scalar (CStr
           (or_str (Some (case selection ws of
                            None \<Rightarrow> []
                          | Some slc \<Rightarrow> str_or_empty (get_string_from_node slc)))
              (if attr_of f = Some ''groupby''
               then (case cargs of [] \<Rightarrow> [] | arg0 # _ \<Rightarrow> str_or_empty (get_string_from_node arg0))
               else [])))),
        (''aggregation'', Scalar (CStr (if m = ''mean'' then ''avg'' else m)))])"
  unfolding agg_idiom_def
  by (simp only: expr.case if_P [OF assms] walk_wrap prod.case)

lemma not_other_idiom:
  assumes "m \<in> set [''sum'', ''mean'', ''count'', ''min'', ''max'']"
  shows "read_csv_idiom (Attribute fv m) args = None"
    and "groupby_idiom (Attribute fv m) args kws = None"
proof -
  have ne: "m \<noteq> ''read_csv''" "m \<noteq> ''groupby''"
    using assms by auto
  show "read_csv_idiom (Attribute fv m) args = None"
    by (simp add: read_csv_idiom_def ne)
  show "groupby_idiom (Attribute fv m) args kws = None"
    by (simp add: groupby_idiom_def ne)
qed

lemma first_some_third: "first_some [None, None, Some x, y, z] = Some x"
  by (simp add: first_some_def)

lemma visit_Assign_chain:
  assumes "m \<in> set [''sum'', ''mean'', ''count'', ''min'', ''max'']"
  shows "visit_Assign lim b self [target]
           (Call (Attribute (wrap ws (Call f cargs ckws)) m) args kws) pos =
     Inr (self\<lparr>extractor.steps := extractor.steps self @
       [\<lparr>kind = ''groupBy'',
         config =
           [(''groupByColumn'', Scalar (CStr
               (if attr_of f = Some ''groupby''
                then (case cargs of [] \<Rightarrow> [] | arg0 # _ \<Rightarrow> str_or_empty (get_string_from_node arg0))
                else []))),
            (''aggregateColumn'', Scalar (CStr
               (or_str (Some (case selection ws of
                                None \<Rightarrow> []
                              | Some slc \<Rightarrow> str_or_empty (get_string_from_node slc)))
                  (if attr_of f = Some ''groupby''
                   then (case cargs of [] \<Rightarrow> [] | arg0 # _ \<Rightarrow> str_or_empty (get_string_from_node arg0))
                   else [])))),
            (''aggregation'', Scalar (CStr (if m = ''mean'' then ''avg'' else m)))]\<rparr>]\<rparr>)"
  unfolding visit_Assign_def rhs_step_def add_step_def
  by (simp only: list.case expr.case sum.case option.case prod.case not_other_idiom [OF assms]
      agg_idiom_wrap [OF assms] first_some_third)

lemma visit_chain_assign:
  assumes "m \<in> set [''sum'', ''mean'', ''count'', ''min'', ''max'']"
  shows "visit lim (Suc (Suc b)) (chain_assign target (Call f cargs ckws) ws m args kws pos) self =
     Inr (self\<lparr>extractor.steps := extractor.steps self @
       [\<lparr>kind = ''groupBy'',
         config =
           [(''groupByColumn'', Scalar (CStr
               (if attr_of f = Some ''groupby''
                then (case cargs of [] \<Rightarrow> [] | arg0 # _ \<Rightarrow> str_or_empty (get_string_from_node arg0))
                else []))),
            (''aggregateColumn'', Scalar (CStr
               (or_str (Some (case selection ws of
                                None \<Rightarrow> []
                              | Some slc \<Rightarrow> str_or_empty (get_string_from_node slc)))
                  (if attr_of f = Some ''groupby''
                   then (case cargs of [] \<Rightarrow> [] | arg0 # _ \<Rightarrow> str_or_empty (get_string_from_node arg0))
                   else [])))),
            (''aggregation'', Scalar (CStr (if m = ''mean'' then ''avg'' else m)))]\<rparr>]\<rparr>)"
  unfolding chain_assign_def visit.simps
  by (rule visit_Assign_chain [OF assms])

text \<open>Recognition does not read names.\<close>

lemma rhs_step_base: "rhs_step lim (Subscript b slc) = rhs_step lim (Subscript b2 slc)"
  by (simp add: rhs_step_def select_idiom_def get_column_list_def split: sum.splits option.splits)

lemma generic_visit_agree:
  "generic_visit b es s \<noteq> Inl RecursionError \<Longrightarrow> generic_visit b es2 s \<noteq> Inl RecursionError
     \<Longrightarrow> generic_visit b es s = generic_visit b es2 s"
  using generic_visit_cases [of b es s] generic_visit_cases [of b es2 s] by auto

lemma visit_Assign_Subscript:
  "visit_Assign lim b self [Subscript base slc] v pos =
     (case rhs_step lim v of
        Inl e \<Rightarrow> Inl e
      | Inr (Some kc) \<Rightarrow> Inr (add_step self (fst kc) (snd kc))
      | Inr None \<Rightarrow>
          (case get_string_from_node slc of
             Some col_name \<Rightarrow>
               if unparse_simple pos (lines self) \<noteq> [] then
                 Inr (add_step self ''computedColumn''
                        [(''newColumnName'', Scalar (CStr col_name)),
                         (''expression'', Scalar (CStr (unparse_simple pos (lines self))))])
               else generic_visit b [Subscript base slc, v] (self\<lparr>fallback_to_llm := True\<rparr>)
           | None \<Rightarrow> generic_visit b [Subscript base slc, v] self))"
  by (simp add: visit_Assign_def unrecognized_def Let_def
      split: sum.splits option.splits prod.splits)

lemma visit_Assign_filter_shape:
  assumes "visit_Assign lim b self [Name t]
             (Subscript bb (Compare (Subscript d (Constant (CStr c))) [op] [Constant k])) pos
           \<noteq> Inl RecursionError"
    and "visit_Assign lim b self [Name ''df'']
             (Subscript (Name ''df'')
                (Compare (Subscript (Name ''df'') (Constant (CStr c))) [op] [Constant k])) pos
           \<noteq> Inl RecursionError"
  shows "map_sum id extractor.steps
           (visit_Assign lim b self [Name t]
              (Subscript bb (Compare (Subscript d (Constant (CStr c))) [op] [Constant k])) pos)
       = map_sum id extractor.steps
           (visit_Assign lim b self [Name ''df'']
              (Subscript (Name ''df'')
                 (Compare (Subscript (Name ''df'') (Constant (CStr c))) [op] [Constant k])) pos)"
proof -
  let ?A = "Subscript bb (Compare (Subscript d (Constant (CStr c))) [op] [Constant k])"
  let ?B = "Subscript (Name ''df'')
              (Compare (Subscript (Name ''df'') (Constant (CStr c))) [op] [Constant k])"
  have r: "rhs_step lim ?A = rhs_step lim ?B"
    by (simp add: rhs_step_Compare filter_idiom_Compare)
  show ?thesis
  proof (cases "rhs_step lim ?B")
    case (Inl e)
    then show ?thesis by (simp add: visit_Assign_Name r)
  next
    case (Inr x)
    show ?thesis
    proof (cases x)
      case (Some kc)
      with Inr show ?thesis by (simp add: visit_Assign_Name r)
    next
      case None
      from assms(1) None Inr r
      have a: "generic_visit b [Name t, ?A] (unrecognized self (Name t))
                 = Inr (unrecognized self (Name t))"
        using generic_visit_cases [of b "[Name t, ?A]" "unrecognized self (Name t)"]
        by (simp add: visit_Assign_Name)
      from assms(2) None Inr
      have b: "generic_visit b [Name ''df'', ?B] (unrecognized self (Name ''df''))
                 = Inr (unrecognized self (Name ''df''))"
        using generic_visit_cases [of b "[Name ''df'', ?B]" "unrecognized self (Name ''df'')"]
        by (simp add: visit_Assign_Name)
      from None Inr r a b show ?thesis
        by (simp add: visit_Assign_Name unrecognized_def)
    qed
  qed
qed

lemma visit_Assign_target_base:
  assumes "visit_Assign lim b self [Subscript b1 slc] v pos \<noteq> Inl RecursionError"
    and "visit_Assign lim b self [Subscript b2 slc] v pos \<noteq> Inl RecursionError"
  shows "visit_Assign lim b self [Subscript b1 slc] v pos
       = visit_Assign lim b self [Subscript b2 slc] v pos"
proof (cases "rhs_step lim v")
  case (Inl e)
  then show ?thesis by (simp add: visit_Assign_Subscript)
next
  case (Inr x)
  show ?thesis
  proof (cases x)
    case (Some kc)
    with Inr show ?thesis by (simp add: visit_Assign_Subscript)
  next
    case None
    show ?thesis
    proof (cases "get_string_from_node slc")
      case n: None
      from assms Inr None n show ?thesis
        using generic_visit_agree [of b "[Subscript b1 slc, v]" self "[Subscript b2 slc, v]"]
        by (simp add: visit_Assign_Subscript)
    next
      case s: (Some col_name)
      from assms Inr None s show ?thesis
        using generic_visit_agree [of b "[Subscript b1 slc, v]"
            "self\<lparr>fallback_to_llm := True\<rparr>" "[Subscript b2 slc, v]"]
        by (simp add: visit_Assign_Subscript split: if_splits)
    qed
  qed
qed

lemma generic_visit_steps:
  "extractor.steps s1 = extractor.steps s2 \<Longrightarrow>
     map_sum id extractor.steps (generic_visit b es s1)
       = map_sum id extractor.steps (generic_visit b es s2)"
  by (cases b) (simp_all add: generic_visit_def)

lemma visit_Assign_Name_steps:
  "map_sum id extractor.steps (visit_Assign lim b self [Name t] v pos)
     = map_sum id extractor.steps (visit_Assign lim b self [Name t2] v pos)"
proof (cases "rhs_step lim v")
  case (Inl e)
  then show ?thesis by (simp add: visit_Assign_Name)
next
  case (Inr x)
  show ?thesis
  proof (cases x)
    case (Some kc)
    with Inr show ?thesis by (simp add: visit_Assign_Name)
  next
    case None
    have "map_sum id extractor.steps (generic_visit b [Name t2, v] (unrecognized self (Name t)))
        = map_sum id extractor.steps (generic_visit b [Name t2, v] (unrecognized self (Name t2)))"
      by (rule generic_visit_steps) (simp add: unrecognized_def)
    with None Inr show ?thesis
      by (simp add: visit_Assign_Name generic_visit_Name [of b t _ _ t2])
  qed
qed

lemma visit_Assign_Name_flag:
  assumes "visit_Assign lim b self [Name t] v pos = Inr self2"
  shows "fallback_to_llm self2 =
          (fallback_to_llm self
           \<or> (t = df_name self \<and> extractor.steps self2 = extractor.steps self))"
proof (cases "rhs_step lim v")
  case (Inl e)
  with assms show ?thesis by (simp add: visit_Assign_Name)
next
  case (Inr x)
  show ?thesis
  proof (cases x)
    case (Some kc)
    with Inr assms have "self2 = add_step self (fst kc) (snd kc)"
      by (simp add: visit_Assign_Name)
    then show ?thesis by (simp add: add_step_def)
  next
    case None
    with Inr assms have "generic_visit b [Name t, v] (unrecognized self (Name t)) = Inr self2"
      by (simp add: visit_Assign_Name)
    then have "self2 = unrecognized self (Name t)"
      by (rule generic_visit_Inr)
    then show ?thesis by (simp add: unrecognized_def)
  qed
qed

text \<open>What one statement, and a whole walk, does to the extractor.\<close>

lemma visit_Assign_multi:
  "length targets \<noteq> 1 \<Longrightarrow>
     visit_Assign lim b self targets v pos = generic_visit b (targets @ [v]) self"
proof (cases targets)
  case Nil
  then show ?thesis by (simp add: visit_Assign_def)
next
  case (Cons t ts)
  assume "length targets \<noteq> 1"
  with Cons obtain u us where "ts = u # us"
    by (cases ts) auto
  with Cons show ?thesis by (simp add: visit_Assign_def)
qed

lemma visit_Assign_single:
  "visit_Assign lim b self [target] v pos =
     (case rhs_step lim v of
        Inl e \<Rightarrow> Inl e
      | Inr (Some kc) \<Rightarrow> Inr (add_step self (fst kc) (snd kc))
      | Inr None \<Rightarrow>
          (case (case target of
                   Subscript _ _ \<Rightarrow> get_string_from_node target
                 | _ \<Rightarrow> None) of
             Some col_name \<Rightarrow>
               if unparse_simple pos (lines self) \<noteq> [] then
                 Inr (add_step self ''computedColumn''
                        [(''newColumnName'', Scalar (CStr col_name)),
                         (''expression'', Scalar (CStr (unparse_simple pos (lines self))))])
               else generic_visit b [target, v]
                      (unrecognized (self\<lparr>fallback_to_llm := True\<rparr>) target)
           | None \<Rightarrow> generic_visit b [target, v] (unrecognized self target)))"
  by (simp add: visit_Assign_def Let_def split: sum.splits option.splits prod.splits)

lemma add_step_effect:
  "fallback_to_llm (add_step self k c) = fallback_to_llm self"
  "lines (add_step self k c) = lines self"
  "df_name (add_step self k c) = df_name self"
  "\<exists>new. extractor.steps (add_step self k c) = extractor.steps self @ new"
  by (simp_all add: add_step_def)

lemma unrecognized_effect:
  "lines (unrecognized self target) = lines self"
  "df_name (unrecognized self target) = df_name self"
  "extractor.steps (unrecognized self target) = extractor.steps self"
  by (cases target; simp add: unrecognized_def)+

lemma visit_Assign_effect:
  assumes "visit_Assign lim b self targets v pos = Inr self2"
  shows "fallback_to_llm self2 =
           (fallback_to_llm self \<or> sets_flag lim (lines self) (df_name self) (Assign targets v pos))
         \<and> lines self2 = lines self
         \<and> df_name self2 = df_name self
         \<and> (\<exists>new. extractor.steps self2 = extractor.steps self @ new)"
proof (cases "length targets = 1")
  case False
  with assms have "generic_visit b (targets @ [v]) self = Inr self2"
    by (simp add: visit_Assign_multi)
  then have s: "self2 = self"
    by (rule generic_visit_Inr)
  from False have "\<not> sets_flag lim (lines self) (df_name self) (Assign targets v pos)"
    by (cases targets; cases "tl targets") (simp_all add: sets_flag_def)
  with s show ?thesis by simp
next
  case True
  then obtain target where t: "targets = [target]"
    by (cases targets) auto
  show ?thesis
  proof (cases "rhs_step lim v")
    case (Inl e)
    with assms t show ?thesis by (simp add: visit_Assign_single)
  next
    case (Inr x)
    show ?thesis
    proof (cases x)
      case (Some kc)
      with Inr assms t have s: "self2 = add_step self (fst kc) (snd kc)"
        by (simp add: visit_Assign_single)
      from Some Inr t have "\<not> sets_flag lim (lines self) (df_name self) (Assign targets v pos)"
        by (simp add: sets_flag_def)
      with s show ?thesis by (simp add: add_step_effect)
    next
      case None
      show ?thesis
      proof (cases "case target of Subscript _ _ \<Rightarrow> get_string_from_node target | _ \<Rightarrow> None")
        case n: None
        with None Inr assms t
        have "generic_visit b [target, v] (unrecognized self target) = Inr self2"
          by (simp add: visit_Assign_single)
        then have s: "self2 = unrecognized self target"
          by (rule generic_visit_Inr)
        from n None Inr t
        have "fallback_to_llm (unrecognized self target) =
           (fallback_to_llm self
            \<or> sets_flag lim (lines self) (df_name self) (Assign targets v pos))"
          by (cases target) (simp_all add: sets_flag_def unrecognized_def)
        with s show ?thesis by (simp add: unrecognized_effect)
      next
        case c: (Some col_name)
        then obtain bb slc where sub: "target = Subscript bb slc"
          by (cases target) simp_all
        show ?thesis
        proof (cases "unparse_simple pos (lines self) = []")
          case True
          with c None Inr assms t
          have "generic_visit b [target, v]
                  (unrecognized (self\<lparr>fallback_to_llm := True\<rparr>) target) = Inr self2"
            by (simp add: visit_Assign_single)
          then have "self2 = unrecognized (self\<lparr>fallback_to_llm := True\<rparr>) target"
            by (rule generic_visit_Inr)
          with sub have s: "self2 = self\<lparr>fallback_to_llm := True\<rparr>"
            by (simp add: unrecognized_def)
          from True c None Inr t sub
          have "sets_flag lim (lines self) (df_name self) (Assign targets v pos)"
            by (simp add: sets_flag_def)
          with s show ?thesis by simp
        next
          case False
          with c None Inr assms t
          have s: "self2 = add_step self ''computedColumn''
                        [(''newColumnName'', Scalar (CStr col_name)),
                         (''expression'', Scalar (CStr (unparse_simple pos (lines self))))]"
            by (simp add: visit_Assign_single)
          from False c None Inr t sub
          have "\<not> sets_flag lim (lines self) (df_name self) (Assign targets v pos)"
            by (simp add: sets_flag_def)
          with s show ?thesis by (simp add: add_step_effect)
        qed
      qed
    qed
  qed
qed

lemma visit_Expr_cases:
  "(\<exists>c. visit_Expr b self v = Inr (add_step self ''chart'' c))
   \<or> visit_Expr b self v = generic_visit b [v] self"
  by (auto simp: visit_Expr_def split: expr.splits)

lemma visit_Expr_effect:
  assumes "visit_Expr b self v = Inr self2"
  shows "fallback_to_llm self2 = fallback_to_llm self
         \<and> lines self2 = lines self
         \<and> df_name self2 = df_name self
         \<and> (\<exists>new. extractor.steps self2 = extractor.steps self @ new)"
proof -
  from visit_Expr_cases [of b self v] assms
  consider c where "self2 = add_step self ''chart'' c" | "generic_visit b [v] self = Inr self2"
    by auto
  then show ?thesis
  proof cases
    case 1
    then show ?thesis by (simp add: add_step_effect)
  next
    case 2
    then have "self2 = self" by (rule generic_visit_Inr)
    then show ?thesis by simp
  qed
qed

lemma visit_effect:
  "visit lim r s self = Inr self2 \<Longrightarrow>
     fallback_to_llm self2 =
       (fallback_to_llm self
        \<or> (\<exists>x\<in>set (statements s). sets_flag lim (lines self) (df_name self) x))
     \<and> lines self2 = lines self \<and> df_name self2 = df_name self
     \<and> (\<exists>new. extractor.steps self2 = extractor.steps self @ new)"
  "visit_children lim b cs self = Inr self2 \<Longrightarrow>
     fallback_to_llm self2 =
       (fallback_to_llm self
        \<or> (\<exists>x\<in>set (child_statements cs). sets_flag lim (lines self) (df_name self) x))
     \<and> lines self2 = lines self \<and> df_name self2 = df_name self
     \<and> (\<exists>new. extractor.steps self2 = extractor.steps self @ new)"
proof (induction lim r s self and lim b cs self arbitrary: self2 and self2
    rule: visit_visit_children.induct)
  case (1 lim b targets v pos self)
  then show ?case
    using visit_Assign_effect [of lim b self targets v pos self2] by simp
next
  case (2 lim b v self)
  then show ?case
    using visit_Expr_effect [of b self v self2] by (simp add: sets_flag_def)
next
  case (3 lim b cs self)
  from "3.prems" have b: "b \<noteq> 0" and c: "visit_children lim b cs self = Inr self2"
    by (simp_all split: if_splits)
  from "3.IH" [OF b c] show ?case
    by (simp add: sets_flag_def)
next
  case (6 lim b e cs self)
  from "6.prems" have e: "visit_expr b e" and c: "visit_children lim b cs self = Inr self2"
    by (simp_all split: if_splits)
  from "6.IH" [OF e c] show ?case by simp
next
  case (7 lim b s cs self)
  from "7.prems" obtain mid where
    m1: "visit lim b s self = Inr mid" and m2: "visit_children lim b cs mid = Inr self2"
    by (auto split: sum.splits)
  from "7.IH"(1) [OF m1] "7.IH"(2) [OF m1 m2] show ?case
    by auto
qed simp_all

text \<open>Loading a file, a literal beyond the digit limit, and a sum too deep to walk.\<close>

lemma visit_Assign_read_csv:
  "f \<noteq> [] \<Longrightarrow>
   visit_Assign lim b self [Name ''df'']
     (Call (Attribute (Name ''pd'') ''read_csv'') [Constant (CStr f)] []) pos =
     Inr (self\<lparr>extractor.steps := extractor.steps self @
       [\<lparr>kind = ''dataSource'', config = [(''fileName'', Scalar (CStr f))]\<rparr>]\<rparr>)"
  by (simp add: visit_Assign_Name rhs_step_def read_csv_idiom_def first_some_def or_str_def
      add_step_def)

lemma visit_Assign_huge_filter:
  "visit_Assign 4300 b self [Name ''df'']
     (Subscript (Name ''df'')
        (Compare (Subscript (Name ''df'') (Constant (CStr ''n''))) [Gt]
           [Constant (CInt huge_literal)])) pos = Inl ValueError"
  by (simp add: visit_Assign_Name rhs_step_Compare filter_idiom_Compare FILTER_OPS_def py_str_def
      exceeds_huge)

lemma rhs_step_load: "rhs_step lim (Call (Name ''load'') [] []) = Inr None"
  by (simp add: rhs_step_def first_some_def read_csv_idiom_def groupby_idiom_def
      agg_idiom_def sort_idiom_def melt_idiom_def)




section \<open>Filters\<close>

text \<open>
  C7, as the specification states it, fails for the literal \<^verbatim>\<open>None\<close> (and for an empty
  column name): \<^verbatim>\<open>df = df[df["a"] <= None]\<close> is walked without a fault and appends no
  step, so no operator \<open>lt\<close> is emitted; the program prints no steps and the flag true.
\<close>

theorem none_literal_emits_no_filter:
  "visit 4300 996 (filter_assign ''a'' LtE CNone (Some (1, Some 1))) (PipelineExtractor ''src'')
     = Inr ((PipelineExtractor ''src'')\<lparr>fallback_to_llm := True\<rparr>)
   \<and> main 4300 998 ''src'' (Parsed [filter_assign ''a'' LtE CNone (Some (1, Some 1))])
     = Printed \<lparr>steps = [], fallbackToLlm = True\<rparr>"
  by (simp add: run filter_assign_def rhs_step_Compare filter_idiom_Compare FILTER_OPS_def)

text \<open>
  C7, amended. For every column \<open>c\<close> and literal \<open>v\<close>, a script that holds
  \<^verbatim>\<open>df = df[df[c] <= v]\<close> and the same script with \<^verbatim>\<open><\<close> in place of \<^verbatim>\<open><=\<close> give
  the same outcome of \<^verbatim>\<open>main\<close>, and likewise \<^verbatim>\<open>>=\<close> and \<^verbatim>\<open>>\<close>. When the column name
  is not empty, the literal is not \<^verbatim>\<open>None\<close> and \<^verbatim>\<open>str\<close> of it returns \<open>s\<close>, each of the
  four statements appends exactly one filter step with that column and the value
  \<open>s\<close>, with operator \<open>lt\<close> for both \<^verbatim>\<open><=\<close> and \<^verbatim>\<open><\<close>, and \<open>gt\<close> for both \<^verbatim>\<open>>=\<close> and
  \<^verbatim>\<open>>\<close>.
\<close>

theorem lossy_comparators:
  "main lim rec source (Parsed (pre @ filter_assign c LtE v pos # post))
     = main lim rec source (Parsed (pre @ filter_assign c Lt v pos # post))
   \<and> main lim rec source (Parsed (pre @ filter_assign c GtE v pos # post))
     = main lim rec source (Parsed (pre @ filter_assign c Gt v pos # post))
   \<and> (c \<noteq> [] \<and> v \<noteq> CNone \<and> py_str lim v = Inr s \<longrightarrow>
        visit lim (Suc (Suc b)) (filter_assign c LtE v pos) self
          = Inr (self\<lparr>extractor.steps := extractor.steps self @
                  [\<lparr>kind = ''filter'',
                    config = [(''column'', Scalar (CStr c)), (''operator'', Scalar (CStr ''lt'')),
                              (''value'', Scalar (CStr s))]\<rparr>]\<rparr>)
      \<and> visit lim (Suc (Suc b)) (filter_assign c Lt v pos) self
          = Inr (self\<lparr>extractor.steps := extractor.steps self @
                  [\<lparr>kind = ''filter'',
                    config = [(''column'', Scalar (CStr c)), (''operator'', Scalar (CStr ''lt'')),
                              (''value'', Scalar (CStr s))]\<rparr>]\<rparr>)
      \<and> visit lim (Suc (Suc b)) (filter_assign c GtE v pos) self
          = Inr (self\<lparr>extractor.steps := extractor.steps self @
                  [\<lparr>kind = ''filter'',
                    config = [(''column'', Scalar (CStr c)), (''operator'', Scalar (CStr ''gt'')),
                              (''value'', Scalar (CStr s))]\<rparr>]\<rparr>)
      \<and> visit lim (Suc (Suc b)) (filter_assign c Gt v pos) self
          = Inr (self\<lparr>extractor.steps := extractor.steps self @
                  [\<lparr>kind = ''filter'',
                    config = [(''column'', Scalar (CStr c)), (''operator'', Scalar (CStr ''gt'')),
                              (''value'', Scalar (CStr s))]\<rparr>]\<rparr>))"
proof -
  have lt: "visit lim r (filter_assign c LtE v pos) self = visit lim r (filter_assign c Lt v pos) self"
    for r self
    by (rule visit_filter_assign_op) (simp add: FILTER_OPS_def)
  have gt: "visit lim r (filter_assign c GtE v pos) self = visit lim r (filter_assign c Gt v pos) self"
    for r self
    by (rule visit_filter_assign_op) (simp add: FILTER_OPS_def)
  have m1: "main lim rec source (Parsed (pre @ filter_assign c LtE v pos # post))
     = main lim rec source (Parsed (pre @ filter_assign c Lt v pos # post))"
    unfolding main_Parsed by (simp only: visit_cong_stmt [of lim _ _ rec pre post, OF lt])
  have m2: "main lim rec source (Parsed (pre @ filter_assign c GtE v pos # post))
     = main lim rec source (Parsed (pre @ filter_assign c Gt v pos # post))"
    unfolding main_Parsed by (simp only: visit_cong_stmt [of lim _ _ rec pre post, OF gt])
  have e: "c \<noteq> [] \<and> v \<noteq> CNone \<and> py_str lim v = Inr s \<longrightarrow>
        visit lim (Suc (Suc b)) (filter_assign c LtE v pos) self
          = Inr (self\<lparr>extractor.steps := extractor.steps self @
                  [\<lparr>kind = ''filter'',
                    config = [(''column'', Scalar (CStr c)), (''operator'', Scalar (CStr ''lt'')),
                              (''value'', Scalar (CStr s))]\<rparr>]\<rparr>)
      \<and> visit lim (Suc (Suc b)) (filter_assign c Lt v pos) self
          = Inr (self\<lparr>extractor.steps := extractor.steps self @
                  [\<lparr>kind = ''filter'',
                    config = [(''column'', Scalar (CStr c)), (''operator'', Scalar (CStr ''lt'')),
                              (''value'', Scalar (CStr s))]\<rparr>]\<rparr>)
      \<and> visit lim (Suc (Suc b)) (filter_assign c GtE v pos) self
          = Inr (self\<lparr>extractor.steps := extractor.steps self @
                  [\<lparr>kind = ''filter'',
                    config = [(''column'', Scalar (CStr c)), (''operator'', Scalar (CStr ''gt'')),
                              (''value'', Scalar (CStr s))]\<rparr>]\<rparr>)
      \<and> visit lim (Suc (Suc b)) (filter_assign c Gt v pos) self
          = Inr (self\<lparr>extractor.steps := extractor.steps self @
                  [\<lparr>kind = ''filter'',
                    config = [(''column'', Scalar (CStr c)), (''operator'', Scalar (CStr ''gt'')),
                              (''value'', Scalar (CStr s))]\<rparr>]\<rparr>)"
    by (simp add: visit_filter_assign filter_idiom_Compare FILTER_OPS_def add_step_def)
  from m1 m2 e show ?thesis by blast
qed

theorem lossy_comparators_witness:
  "main 4300 998 ''src'' (Parsed [filter_assign ''age'' LtE (CInt 30) (Some (1, Some 1))])
     = main 4300 998 ''src'' (Parsed [filter_assign ''age'' Lt (CInt 30) (Some (1, Some 1))])
   \<and> ''age'' \<noteq> [] \<and> CInt 30 \<noteq> CNone \<and> py_str 4300 (CInt 30) = Inr ''30''
   \<and> visit 4300 (Suc (Suc 994)) (filter_assign ''age'' LtE (CInt 30) (Some (1, Some 1)))
        (PipelineExtractor ''src'')
       = Inr ((PipelineExtractor ''src'')\<lparr>extractor.steps := extractor.steps (PipelineExtractor ''src'') @
                  [\<lparr>kind = ''filter'',
                    config = [(''column'', Scalar (CStr ''age'')),
                              (''operator'', Scalar (CStr ''lt'')),
                              (''value'', Scalar (CStr ''30''))]\<rparr>]\<rparr>)
   \<and> visit 4300 (Suc (Suc 994)) (filter_assign ''age'' GtE (CInt 30) (Some (1, Some 1)))
        (PipelineExtractor ''src'')
       = Inr ((PipelineExtractor ''src'')\<lparr>extractor.steps := extractor.steps (PipelineExtractor ''src'') @
                  [\<lparr>kind = ''filter'',
                    config = [(''column'', Scalar (CStr ''age'')),
                              (''operator'', Scalar (CStr ''gt'')),
                              (''value'', Scalar (CStr ''30''))]\<rparr>]\<rparr>)"
  using lossy_comparators [of 4300 998 "''src''" "[]" "''age''" "CInt 30"
        "Some (1, Some 1)" "[]" "''30''" 994 "PipelineExtractor ''src''"] py_str_30
  by simp

section \<open>The output contract\<close>

text \<open>
  C2 holds where the parser raises \<^verbatim>\<open>SyntaxError\<close>: the program then prints exactly the
  document with no steps and \<open>fallbackToLlm\<close> true. It does not hold for every text
  the parser rejects: the \<^verbatim>\<open>try\<close> block around \<^verbatim>\<open>ast.parse\<close> catches \<^verbatim>\<open>SyntaxError\<close>
  alone, so any other exception of the parser leaves \<^verbatim>\<open>main\<close> and nothing is printed.
  A sum of 3000 names is such a text (the parser raises \<^verbatim>\<open>RecursionError\<close> while it
  builds the tree), and so is a text with a null byte where the parser reports it as
  \<^verbatim>\<open>ValueError\<close>.
\<close>

theorem parse_failure_outcomes:
  "main lim rec source SyntaxError = Printed \<lparr>steps = [], fallbackToLlm = True\<rparr>
   \<and> main lim rec source (ParseRaised e) = Escaped e
   \<and> main 4300 998 (concat (replicate 2999 ''a+'') @ ''a'') (ParseRaised RecursionError)
       = Escaped RecursionError
   \<and> main 4300 998 (''df = 1'' @ [char_of (0 :: nat)]) (ParseRaised ValueError)
       = Escaped ValueError"
  by (simp add: main_def print_json_def failure_def first_some_def)

section \<open>Chart calls\<close>

text \<open>
  C9. A recognized chart call (a method \<open>bar\<close>, \<open>plot\<close>, \<open>scatter\<close> or \<open>pie\<close> of an
  attribute named \<open>pyplot\<close>) always appends exactly one chart step and returns. With
  two or more positional arguments \<open>xAxis\<close> is read from the first and \<open>yAxis\<close> from
  the second; with exactly one, \<open>yAxis\<close> is read from it and \<open>xAxis\<close> stays empty; with
  none both stay empty. An argument that resolves to no string gives the empty string.
\<close>

theorem chart_axes:
  assumes "m \<in> set [''bar'', ''plot'', ''scatter'', ''pie'']"
  shows "visit lim (Suc (Suc b)) (Expr (Call (Attribute (Attribute f ''pyplot'') m) args kws)) self =
           Inr (self\<lparr>extractor.steps := extractor.steps self @
             [\<lparr>kind = ''chart'',
               config =
                 [(''chartType'', Scalar (CStr (if m = ''plot'' then ''line'' else m))),
                  (''xAxis'', Scalar (CStr
                     (case args of
                        a1 # a2 # _ \<Rightarrow>
                          (case get_string_from_node a1 of None \<Rightarrow> [] | Some s \<Rightarrow> s)
                      | _ \<Rightarrow> []))),
                  (''yAxis'', Scalar (CStr
                     (case args of
                        [] \<Rightarrow> []
                      | [a1] \<Rightarrow> (case get_string_from_node a1 of None \<Rightarrow> [] | Some s \<Rightarrow> s)
                      | a1 # a2 # _ \<Rightarrow>
                          (case get_string_from_node a2 of None \<Rightarrow> [] | Some s \<Rightarrow> s))))]\<rparr>]\<rparr>)"
  using assms
  by (auto simp: visit_Expr_def chart_step_def add_step_def or_str_Nil str_or_empty_def
      split: list.splits)

theorem chart_axes_witness:
  "''scatter'' \<in> set [''bar'', ''plot'', ''scatter'', ''pie'']
   \<and> visit 4300 (Suc (Suc 994))
        (Expr (Call (Attribute (Attribute (Name ''matplotlib'') ''pyplot'') ''scatter'')
           [Subscript (Name ''df'') (Constant (CStr ''x'')), Name ''ys''] []))
        (PipelineExtractor ''src'') =
       Inr ((PipelineExtractor ''src'')\<lparr>extractor.steps :=
         extractor.steps (PipelineExtractor ''src'') @
         [\<lparr>kind = ''chart'',
           config = [(''chartType'', Scalar (CStr ''scatter'')),
                     (''xAxis'', Scalar (CStr ''x'')),
                     (''yAxis'', Scalar (CStr []))]\<rparr>]\<rparr>)"
  using chart_axes [of "''scatter''" 4300 994 "Name ''matplotlib''"
      "[Subscript (Name ''df'') (Constant (CStr ''x'')), Name ''ys'']" "[]"
      "PipelineExtractor ''src''"]
  by simp

text \<open>
  C10. An expression statement that calls a method of a bare name, \<^verbatim>\<open>plt.bar(...)\<close>
  among them, appends no step: the visit returns the extractor as it was, or the
  generic walk of the call raises \<^verbatim>\<open>RecursionError\<close>. A script made of
  \<^verbatim>\<open>plt.bar(...)\<close> alone therefore prints no steps and the flag true. \<^verbatim>\<open>visit_Expr\<close>
  appends a step exactly when the called function is a method \<open>bar\<close>, \<open>plot\<close>,
  \<open>scatter\<close> or \<open>pie\<close> of an attribute node named \<open>pyplot\<close>, so the test for the name
  \<open>plt\<close> never decides anything.
\<close>

theorem plt_call_emits_no_chart:
  "(visit_Expr b self (Call (Attribute (Name n) m) args kws) = Inr self
    \<or> visit_Expr b self (Call (Attribute (Name n) m) args kws) = Inl RecursionError)
   \<and> main lim rec source (Parsed [Expr (Call (Attribute (Name ''plt'') ''bar'') args kws)])
       = Printed \<lparr>steps = [], fallbackToLlm = True\<rparr>
   \<and> ((\<exists>self2. visit_Expr b self v = Inr self2
                \<and> extractor.steps self2 \<noteq> extractor.steps self)
        = (\<exists>f m args kws. v = Call (Attribute (Attribute f ''pyplot'') m) args kws
              \<and> m \<in> set [''bar'', ''plot'', ''scatter'', ''pie'']))"
proof -
  have a: "visit_Expr b self (Call (Attribute (Name n) m) args kws)
             = generic_visit b [Call (Attribute (Name n) m) args kws] self"
    for b self n m args kws
    by (simp add: visit_Expr_def)
  have a1: "visit_Expr b self (Call (Attribute (Name n) m) args kws) = Inr self
    \<or> visit_Expr b self (Call (Attribute (Name n) m) args kws) = Inl RecursionError"
    unfolding a by (rule generic_visit_cases)
  have b: "main lim rec source (Parsed [Expr (Call (Attribute (Name ''plt'') ''bar'') args kws)])
       = Printed \<lparr>steps = [], fallbackToLlm = True\<rparr>"
  proof (cases "rec < 3")
    case True
    then show ?thesis
      by (simp add: main_Parsed visit_Other failure_def)
  next
    case False
    then have v: "visit lim (rec - 2) (Expr (Call (Attribute (Name ''plt'') ''bar'') args kws))
                    (PipelineExtractor source)
                  = Inr (PipelineExtractor source)
               \<or> visit lim (rec - 2) (Expr (Call (Attribute (Name ''plt'') ''bar'') args kws))
                    (PipelineExtractor source)
                  = Inl RecursionError"
      using generic_visit_cases [of "rec - 2 - 2" _ "PipelineExtractor source"]
      by (cases "rec - 2 < 2") (simp_all add: visit_small visit_minus a)
    from False v show ?thesis
      by (auto simp: main_Parsed visit_Other failure_def PipelineExtractor_def print_json_def
          first_some_def)
  qed
  have c: "(\<exists>self2. visit_Expr b self v = Inr self2
                \<and> extractor.steps self2 \<noteq> extractor.steps self)
        = (\<exists>f m args kws. v = Call (Attribute (Attribute f ''pyplot'') m) args kws
              \<and> m \<in> set [''bar'', ''plot'', ''scatter'', ''pie''])"
  proof
    assume "\<exists>self2. visit_Expr b self v = Inr self2
                \<and> extractor.steps self2 \<noteq> extractor.steps self"
    then obtain self2 where s: "visit_Expr b self v = Inr self2"
      and ne: "extractor.steps self2 \<noteq> extractor.steps self"
      by blast
    have g: "generic_visit b [v] self \<noteq> Inr self2"
      using ne generic_visit_Inr [of b "[v]" self self2] by auto
    from s g show "\<exists>f m args kws. v = Call (Attribute (Attribute f ''pyplot'') m) args kws
              \<and> m \<in> set [''bar'', ''plot'', ''scatter'', ''pie'']"
      by (auto simp: visit_Expr_def split: expr.splits if_splits)
  next
    assume "\<exists>f m args kws. v = Call (Attribute (Attribute f ''pyplot'') m) args kws
              \<and> m \<in> set [''bar'', ''plot'', ''scatter'', ''pie'']"
    then show "\<exists>self2. visit_Expr b self v = Inr self2
                \<and> extractor.steps self2 \<noteq> extractor.steps self"
      by (auto simp: visit_Expr_def add_step_def)
  qed
  from a1 b c show ?thesis by blast
qed

section \<open>Column selection\<close>

text \<open>
  C6, as the specification states it, fails: an element that resolves to no string is
  skipped, it does not make the extractor return no value. For \<^verbatim>\<open>df = df[["a", 1]]\<close>
  the element \<open>1\<close> resolves to no string, yet \<^verbatim>\<open>get_column_list\<close> returns \<open>["a"]\<close> and
  the program prints one select step with the flag false.
\<close>

theorem column_list_skips_unresolved:
  "get_string_from_node (Constant (CInt 1)) = None
   \<and> get_column_list (Subscript (Name ''df'') (PyList [Constant (CStr ''a''), Constant (CInt 1)]))
       = Some [''a'']
   \<and> main 4300 998 ''src''
        (Parsed [select_assign [Constant (CStr ''a''), Constant (CInt 1)] (Some (1, Some 1))])
       = Printed \<lparr>steps = [\<lparr>type = ''select'', config = [(''columns'', Columns [''a''])]\<rparr>],
                  fallbackToLlm = False\<rparr>"
  by (simp add: run get_column_list_PyList cols_or_none_def select_assign_def rhs_step_PyList
      List.map_filter_simps)

text \<open>
  C6, amended. For \<^verbatim>\<open>df = df[[e1, ..., en]]\<close> the Column-List Extractor returns no
  value exactly when no element resolves to a string (the empty list included);
  otherwise it returns the strings of the elements that resolve, in order, skipping
  the others. Accordingly the statement appends a select step with those strings
  unless no element resolves; in that case it appends no step and is treated as an
  unrecognized assignment to \<open>df\<close>, whose generic walk returns the extractor or raises
  \<^verbatim>\<open>RecursionError\<close>.
\<close>

theorem column_list_none_iff:
  "(get_column_list (Subscript b (PyList es)) = None)
     = (\<forall>e\<in>set es. get_string_from_node e = None)
   \<and> (get_column_list (Subscript b (PyList es)) \<noteq> None \<longrightarrow>
        get_column_list (Subscript b (PyList es))
          = Some (List.map_filter get_string_from_node es))
   \<and> visit lim (Suc (Suc r)) (select_assign es pos) self =
       (if \<forall>e\<in>set es. get_string_from_node e = None
        then generic_visit r [Name ''df'', Subscript (Name ''df'') (PyList es)]
               (unrecognized self (Name ''df''))
        else Inr (self\<lparr>extractor.steps := extractor.steps self @
               [\<lparr>kind = ''select'',
                 config = [(''columns'',
                            Columns (List.map_filter get_string_from_node es))]\<rparr>]\<rparr>))
   \<and> extractor.steps (unrecognized self (Name ''df'')) = extractor.steps self
   \<and> (generic_visit r cs self2 = Inr self2 \<or> generic_visit r cs self2 = Inl RecursionError)"
proof -
  have a: "(get_column_list (Subscript b (PyList es)) = None)
     = (\<forall>e\<in>set es. get_string_from_node e = None)"
    by (simp add: get_column_list_PyList cols_or_none_def resolved_Nil_iff)
  have b: "get_column_list (Subscript b (PyList es)) \<noteq> None \<longrightarrow>
        get_column_list (Subscript b (PyList es))
          = Some (List.map_filter get_string_from_node es)"
    by (simp add: get_column_list_PyList cols_or_none_def resolved_map_filter Let_def)
  have c: "visit lim (Suc (Suc r)) (select_assign es pos) self =
       (if \<forall>e\<in>set es. get_string_from_node e = None
        then generic_visit r [Name ''df'', Subscript (Name ''df'') (PyList es)]
               (unrecognized self (Name ''df''))
        else Inr (self\<lparr>extractor.steps := extractor.steps self @
               [\<lparr>kind = ''select'',
                 config = [(''columns'',
                            Columns (List.map_filter get_string_from_node es))]\<rparr>]\<rparr>))"
    by (simp add: select_assign_def visit_Assign_Name rhs_step_PyList add_step_def)
  have d: "extractor.steps (unrecognized self (Name ''df'')) = extractor.steps self"
    by (simp add: unrecognized_def)
  have e: "generic_visit r cs self2 = Inr self2 \<or> generic_visit r cs self2 = Inl RecursionError"
    by (rule generic_visit_cases)
  from a b c d e show ?thesis by blast
qed

theorem column_list_none_iff_witness:
  "get_string_from_node (Constant (CInt 1)) = None
   \<and> get_string_from_node (Name ''c'') = None
   \<and> get_column_list (Subscript (Name ''df'') (PyList [Constant (CInt 1), Name ''c''])) = None
   \<and> visit 4300 (Suc (Suc 994)) (select_assign [Constant (CInt 1), Name ''c''] (Some (1, Some 1)))
        (PipelineExtractor ''src'')
       = Inr ((PipelineExtractor ''src'')\<lparr>fallback_to_llm := True\<rparr>)
   \<and> get_column_list (Subscript (Name ''df'') (PyList [Constant (CStr ''a''), Name ''c'']))
       = Some [''a'']"
  using column_list_none_iff [of "Name ''df''" "[Constant (CInt 1), Name ''c'']" 4300 994
      "Some (1, Some 1)" "PipelineExtractor ''src''"]
    column_list_none_iff [of "Name ''df''" "[Constant (CStr ''a''), Name ''c'']" 4300 994
      "Some (1, Some 1)" "PipelineExtractor ''src''"]
  by (simp add: generic_visit_def visit_expr_minus leaf_def unrecognized_def PipelineExtractor_def)

section \<open>Chained aggregation\<close>

text \<open>
  C8, as the specification states it, fails: the walk back from the aggregation call
  follows subscripts and attribute accesses only, and ends at the first call it meets,
  whatever that call is. In \<^verbatim>\<open>df = df.groupby("a").head(5).sum()\<close> the call \<^verbatim>\<open>sum\<close> is
  chained after a groupby call, yet the walk ends at \<^verbatim>\<open>head(5)\<close>, and the step has an
  empty \<open>groupByColumn\<close> and an empty \<open>aggregateColumn\<close>.
\<close>

theorem chain_walk_stops_at_any_call:
  "main 4300 998 ''src''
     (Parsed [Assign [Name ''df'']
        (Call (Attribute
           (Call (Attribute
              (Call (Attribute (Name ''df'') ''groupby'') [Constant (CStr ''a'')] [])
              ''head'') [Constant (CInt 5)] [])
           ''sum'') [] [])
        (Some (1, Some 1))])
   = Printed \<lparr>steps = [\<lparr>type = ''groupBy'',
                         config = [(''groupByColumn'', Scalar (CStr [])),
                                   (''aggregateColumn'', Scalar (CStr [])),
                                   (''aggregation'', Scalar (CStr ''sum''))]\<rparr>],
              fallbackToLlm = False\<rparr>"
proof -
  have m: "''sum'' \<in> set [''sum'', ''mean'', ''count'', ''min'', ''max'']"
    by simp
  have v: "visit_Assign 4300 994 (PipelineExtractor ''src'') [Name ''df'']
        (Call (Attribute
           (Call (Attribute
              (Call (Attribute (Name ''df'') ''groupby'') [Constant (CStr ''a'')] [])
              ''head'') [Constant (CInt 5)] [])
           ''sum'') [] [])
        (Some (1, Some 1))
     = Inr ((PipelineExtractor ''src'')\<lparr>extractor.steps :=
         [\<lparr>kind = ''groupBy'',
           config = [(''groupByColumn'', Scalar (CStr [])),
                     (''aggregateColumn'', Scalar (CStr [])),
                     (''aggregation'', Scalar (CStr ''sum''))]\<rparr>]\<rparr>)"
    using visit_Assign_chain [OF m, of 4300 994 "PipelineExtractor ''src''" "Name ''df''" "[]"
        "Attribute (Call (Attribute (Name ''df'') ''groupby'') [Constant (CStr ''a'')] []) ''head''"
        "[Constant (CInt 5)]" "[]" "[]" "[]" "Some (1, Some 1)"]
    by (simp add: or_str_def PipelineExtractor_def)
  have w: "visit 4300 998
     (Other [S (Assign [Name ''df'']
        (Call (Attribute
           (Call (Attribute
              (Call (Attribute (Name ''df'') ''groupby'') [Constant (CStr ''a'')] [])
              ''head'') [Constant (CInt 5)] [])
           ''sum'') [] [])
        (Some (1, Some 1)))]) (PipelineExtractor ''src'')
     = Inr ((PipelineExtractor ''src'')\<lparr>extractor.steps :=
         [\<lparr>kind = ''groupBy'',
           config = [(''groupByColumn'', Scalar (CStr [])),
                     (''aggregateColumn'', Scalar (CStr [])),
                     (''aggregation'', Scalar (CStr ''sum''))]\<rparr>]\<rparr>)"
    by (simp add: visit_Other visit_minus v)
  show ?thesis
    unfolding main_Parsed list.map w
    by (simp add: PipelineExtractor_def print_json_def first_some_def dumps_raises_def)
qed

text \<open>
  C8, amended. Let the right-hand side be a call of \<open>sum\<close>, \<open>mean\<close>, \<open>count\<close>, \<open>min\<close> or
  \<open>max\<close> on a call that is wrapped in any number of subscripts and attribute accesses
  (and in no further call). Then the statement appends one groupBy step, with
  \<open>aggregation\<close> the method name, \<open>mean\<close> renamed to \<open>avg\<close>. When the wrapped call is a
  groupby call, \<open>groupByColumn\<close> is the string of its first positional argument (empty
  when it has none or it resolves to no string), and \<open>aggregateColumn\<close> is the string
  of the column selection standing on it, and equals \<open>groupByColumn\<close> when there is no
  selection (or it resolves to no string). When the wrapped call is any other call,
  the walk ends there: \<open>groupByColumn\<close> is empty and \<open>aggregateColumn\<close> is the string
  of the selection, if any.
\<close>

theorem chained_aggregation:
  assumes "m \<in> set [''sum'', ''mean'', ''count'', ''min'', ''max'']"
  shows "visit lim (Suc (Suc b))
           (chain_assign target (Call (Attribute g ''groupby'') gargs gkws) ws m args kws pos) self =
     Inr (self\<lparr>extractor.steps := extractor.steps self @
       [\<lparr>kind = ''groupBy'',
         config =
           [(''groupByColumn'', Scalar (CStr
               (case gargs of
                  [] \<Rightarrow> []
                | arg0 # _ \<Rightarrow> (case get_string_from_node arg0 of None \<Rightarrow> [] | Some s \<Rightarrow> s)))),
            (''aggregateColumn'', Scalar (CStr
               (let group_col = (case gargs of
                                   [] \<Rightarrow> []
                                 | arg0 # _ \<Rightarrow>
                                     (case get_string_from_node arg0 of
                                        None \<Rightarrow> []
                                      | Some s \<Rightarrow> s))
                in case selection ws of
                     None \<Rightarrow> group_col
                   | Some slc \<Rightarrow>
                       (case get_string_from_node slc of
                          None \<Rightarrow> group_col
                        | Some s \<Rightarrow> if s = [] then group_col else s)))),
            (''aggregation'', Scalar (CStr (if m = ''mean'' then ''avg'' else m)))]\<rparr>]\<rparr>)
   \<and> (attr_of f \<noteq> Some ''groupby'' \<longrightarrow>
       visit lim (Suc (Suc b)) (chain_assign target (Call f cargs ckws) ws m args kws pos) self =
         Inr (self\<lparr>extractor.steps := extractor.steps self @
           [\<lparr>kind = ''groupBy'',
             config =
               [(''groupByColumn'', Scalar (CStr [])),
                (''aggregateColumn'', Scalar (CStr
                   (case selection ws of
                      None \<Rightarrow> []
                    | Some slc \<Rightarrow>
                        (case get_string_from_node slc of None \<Rightarrow> [] | Some s \<Rightarrow> s)))),
                (''aggregation'', Scalar (CStr (if m = ''mean'' then ''avg'' else m)))]\<rparr>]\<rparr>))"
proof -
  have a: "visit lim (Suc (Suc b))
           (chain_assign target (Call (Attribute g ''groupby'') gargs gkws) ws m args kws pos) self =
     Inr (self\<lparr>extractor.steps := extractor.steps self @
       [\<lparr>kind = ''groupBy'',
         config =
           [(''groupByColumn'', Scalar (CStr
               (case gargs of
                  [] \<Rightarrow> []
                | arg0 # _ \<Rightarrow> (case get_string_from_node arg0 of None \<Rightarrow> [] | Some s \<Rightarrow> s)))),
            (''aggregateColumn'', Scalar (CStr
               (let group_col = (case gargs of
                                   [] \<Rightarrow> []
                                 | arg0 # _ \<Rightarrow>
                                     (case get_string_from_node arg0 of
                                        None \<Rightarrow> []
                                      | Some s \<Rightarrow> s))
                in case selection ws of
                     None \<Rightarrow> group_col
                   | Some slc \<Rightarrow>
                       (case get_string_from_node slc of
                          None \<Rightarrow> group_col
                        | Some s \<Rightarrow> if s = [] then group_col else s)))),
            (''aggregation'', Scalar (CStr (if m = ''mean'' then ''avg'' else m)))]\<rparr>]\<rparr>)"
    unfolding visit_chain_assign [OF assms] Let_def
    by (simp only: attr_of.simps simp_thms if_True agg_col_cases) (simp only: str_or_empty_def)
  have b: "attr_of f \<noteq> Some ''groupby'' \<longrightarrow>
       visit lim (Suc (Suc b)) (chain_assign target (Call f cargs ckws) ws m args kws pos) self =
         Inr (self\<lparr>extractor.steps := extractor.steps self @
           [\<lparr>kind = ''groupBy'',
             config =
               [(''groupByColumn'', Scalar (CStr [])),
                (''aggregateColumn'', Scalar (CStr
                   (case selection ws of
                      None \<Rightarrow> []
                    | Some slc \<Rightarrow>
                        (case get_string_from_node slc of None \<Rightarrow> [] | Some s \<Rightarrow> s)))),
                (''aggregation'', Scalar (CStr (if m = ''mean'' then ''avg'' else m)))]\<rparr>]\<rparr>)"
    unfolding visit_chain_assign [OF assms]
    by (simp add: or_str_def str_or_empty_def split: option.splits)
  from a b show ?thesis by blast
qed

theorem chained_aggregation_witness:
  "''mean'' \<in> set [''sum'', ''mean'', ''count'', ''min'', ''max'']
   \<and> visit 4300 (Suc (Suc 994))
        (chain_assign (Name ''df'')
           (Call (Attribute (Name ''df'') ''groupby'') [Constant (CStr ''region'')] [])
           [Sel (Constant (CStr ''sales''))] ''mean'' [] [] (Some (1, Some 1)))
        (PipelineExtractor ''src'')
      = Inr ((PipelineExtractor ''src'')\<lparr>extractor.steps :=
          extractor.steps (PipelineExtractor ''src'') @
          [\<lparr>kind = ''groupBy'',
            config = [(''groupByColumn'', Scalar (CStr ''region'')),
                      (''aggregateColumn'', Scalar (CStr ''sales'')),
                      (''aggregation'', Scalar (CStr ''avg''))]\<rparr>]\<rparr>)
   \<and> attr_of (Attribute (Name ''df'') ''head'') \<noteq> Some ''groupby''
   \<and> visit 4300 (Suc (Suc 994))
        (chain_assign (Name ''df'')
           (Call (Attribute (Name ''df'') ''head'') [] [])
           [Sel (Constant (CStr ''sales''))] ''mean'' [] [] (Some (1, Some 1)))
        (PipelineExtractor ''src'')
      = Inr ((PipelineExtractor ''src'')\<lparr>extractor.steps :=
          extractor.steps (PipelineExtractor ''src'') @
          [\<lparr>kind = ''groupBy'',
            config = [(''groupByColumn'', Scalar (CStr [])),
                      (''aggregateColumn'', Scalar (CStr ''sales'')),
                      (''aggregation'', Scalar (CStr ''avg''))]\<rparr>]\<rparr>)"
  using chained_aggregation [of "''mean''" 4300 994 "Name ''df''" "Name ''df''"
      "[Constant (CStr ''region'')]" "[]" "[Sel (Constant (CStr ''sales''))]" "[]" "[]"
      "Some (1, Some 1)" "PipelineExtractor ''src''" "Attribute (Name ''df'') ''head''" "[]" "[]"]
  by simp

section \<open>Scope of the recognizers\<close>

text \<open>
  C5, as the specification states it, fails: no recognizer compares an identifier with
  the tracked name. The script \<^verbatim>\<open>x = y[y["a"] > 1]\<close>, written over other names, is
  translated to a filter step, and the flag stays false.
\<close>

theorem recognizers_ignore_names:
  "main 4300 998 ''x = y[y[a] > 1]''
     (Parsed [Assign [Name ''x'']
        (Subscript (Name ''y'')
           (Compare (Subscript (Name ''y'') (Constant (CStr ''a''))) [Gt] [Constant (CInt 1)]))
        (Some (1, Some 1))])
   = Printed \<lparr>steps = [\<lparr>type = ''filter'',
                         config = [(''column'', Scalar (CStr ''a'')),
                                   (''operator'', Scalar (CStr ''gt'')),
                                   (''value'', Scalar (CStr ''1''))]\<rparr>],
              fallbackToLlm = False\<rparr>"
  by (simp add: run rhs_step_Compare filter_idiom_Compare FILTER_OPS_def py_str_1)

text \<open>
  C5, amended. Recognition goes by the shape of the statement and never by a
  variable's name: the filter and select blocks do not look at the expression being
  indexed; the steps an assignment to a bare name yields do not depend on that name;
  \<^verbatim>\<open>t = b[d[c] op k]\<close> yields the steps of \<^verbatim>\<open>df = df[df[c] op k]\<close> for every name \<open>t\<close>
  and all expressions \<open>b\<close> and \<open>d\<close>, and an assignment to a subscript does the same
  whatever expression is subscripted; in these two comparisons the expressions differ
  in depth, so the generic walk of an unrecognized statement may raise
  \<^verbatim>\<open>RecursionError\<close> for one and not for the other, and the equality is that of the runs
  in which it does not. Only the fallback flag is scoped to the tracked identifier:
  after an assignment to a bare name the flag is set exactly when it was set before,
  or the name is the tracked one and the statement yielded no step.
\<close>

theorem recognition_by_shape:
  "rhs_step lim (Subscript b slc) = rhs_step lim (Subscript b2 slc)
   \<and> map_sum id extractor.steps (visit lim r (Assign [Name t] v pos) self)
     = map_sum id extractor.steps (visit lim r (Assign [Name t2] v pos) self)
   \<and> (visit lim r (Assign [Name t]
           (Subscript b (Compare (Subscript d (Constant (CStr c))) [op] [Constant k])) pos) self
          \<noteq> Inl RecursionError
        \<and> visit lim r (filter_assign c op k pos) self \<noteq> Inl RecursionError \<longrightarrow>
      map_sum id extractor.steps
        (visit lim r (Assign [Name t]
           (Subscript b (Compare (Subscript d (Constant (CStr c))) [op] [Constant k])) pos) self)
     = map_sum id extractor.steps (visit lim r (filter_assign c op k pos) self))
   \<and> (visit lim r (Assign [Subscript b slc] v pos) self \<noteq> Inl RecursionError
        \<and> visit lim r (Assign [Subscript b2 slc] v pos) self \<noteq> Inl RecursionError \<longrightarrow>
      visit lim r (Assign [Subscript b slc] v pos) self
        = visit lim r (Assign [Subscript b2 slc] v pos) self)
   \<and> (visit lim r (Assign [Name t] v pos) self = Inr self2 \<longrightarrow>
        fallback_to_llm self2 =
          (fallback_to_llm self
           \<or> (t = df_name self \<and> extractor.steps self2 = extractor.steps self)))"
proof -
  have a: "rhs_step lim (Subscript b slc) = rhs_step lim (Subscript b2 slc)"
    by (rule rhs_step_base)
  have b: "map_sum id extractor.steps (visit lim r (Assign [Name t] v pos) self)
     = map_sum id extractor.steps (visit lim r (Assign [Name t2] v pos) self)"
  proof (cases "r < 2")
    case True
    then show ?thesis by (simp add: visit_small)
  next
    case False
    then have r: "2 \<le> r" by simp
    show ?thesis
      unfolding visit_minus [OF r] by (rule visit_Assign_Name_steps)
  qed
  have c: "visit lim r (Assign [Name t]
           (Subscript b (Compare (Subscript d (Constant (CStr c))) [op] [Constant k])) pos) self
          \<noteq> Inl RecursionError
        \<and> visit lim r (filter_assign c op k pos) self \<noteq> Inl RecursionError \<longrightarrow>
      map_sum id extractor.steps
        (visit lim r (Assign [Name t]
           (Subscript b (Compare (Subscript d (Constant (CStr c))) [op] [Constant k])) pos) self)
     = map_sum id extractor.steps (visit lim r (filter_assign c op k pos) self)"
  proof (cases "r < 2")
    case True
    then show ?thesis by (simp add: visit_small)
  next
    case False
    then have r: "2 \<le> r" by simp
    show ?thesis
      unfolding filter_assign_def visit_minus [OF r]
      using visit_Assign_filter_shape by blast
  qed
  have d: "visit lim r (Assign [Subscript b slc] v pos) self \<noteq> Inl RecursionError
        \<and> visit lim r (Assign [Subscript b2 slc] v pos) self \<noteq> Inl RecursionError \<longrightarrow>
      visit lim r (Assign [Subscript b slc] v pos) self
        = visit lim r (Assign [Subscript b2 slc] v pos) self"
  proof (cases "r < 2")
    case True
    then show ?thesis by (simp add: visit_small)
  next
    case False
    then have r: "2 \<le> r" by simp
    show ?thesis
      unfolding visit_minus [OF r]
      using visit_Assign_target_base by blast
  qed
  have e: "visit lim r (Assign [Name t] v pos) self = Inr self2 \<longrightarrow>
        fallback_to_llm self2 =
          (fallback_to_llm self
           \<or> (t = df_name self \<and> extractor.steps self2 = extractor.steps self))"
  proof (cases "r < 2")
    case True
    then show ?thesis by (simp add: visit_small)
  next
    case False
    then have r: "2 \<le> r" by simp
    show ?thesis
      unfolding visit_minus [OF r]
      using visit_Assign_Name_flag by blast
  qed
  from a b c d e show ?thesis by blast
qed

theorem recognition_by_shape_witness:
  "visit 4300 998
      (Assign [Name ''x'']
         (Subscript (Name ''y'')
            (Compare (Subscript (Name ''y'') (Constant (CStr ''a''))) [Gt] [Constant (CInt 1)]))
         (Some (1, Some 1))) (PipelineExtractor ''src'')
     = Inr ((PipelineExtractor ''src'')\<lparr>extractor.steps :=
         [\<lparr>kind = ''filter'',
           config = [(''column'', Scalar (CStr ''a'')),
                     (''operator'', Scalar (CStr ''gt'')),
                     (''value'', Scalar (CStr ''1''))]\<rparr>]\<rparr>)
   \<and> visit 4300 998 (filter_assign ''a'' Gt (CInt 1) (Some (1, Some 1))) (PipelineExtractor ''src'')
     = Inr ((PipelineExtractor ''src'')\<lparr>extractor.steps :=
         [\<lparr>kind = ''filter'',
           config = [(''column'', Scalar (CStr ''a'')),
                     (''operator'', Scalar (CStr ''gt'')),
                     (''value'', Scalar (CStr ''1''))]\<rparr>]\<rparr>)
   \<and> map_sum id extractor.steps
        (visit 4300 998
          (Assign [Name ''x'']
             (Subscript (Name ''y'')
                (Compare (Subscript (Name ''y'') (Constant (CStr ''a''))) [Gt] [Constant (CInt 1)]))
             (Some (1, Some 1))) (PipelineExtractor ''src''))
     = map_sum id extractor.steps
        (visit 4300 998 (filter_assign ''a'' Gt (CInt 1) (Some (1, Some 1)))
           (PipelineExtractor ''src''))
   \<and> visit 4300 998
        (Assign [Subscript (Name ''x'') (Constant (CStr ''c''))] (Name ''z'') (Some (1, Some 1)))
        (PipelineExtractor ''src'')
     = Inr ((PipelineExtractor ''src'')\<lparr>extractor.steps :=
         [\<lparr>kind = ''computedColumn'',
           config = [(''newColumnName'', Scalar (CStr ''c'')),
                     (''expression'', Scalar (CStr ''src''))]\<rparr>]\<rparr>)
   \<and> visit 4300 998
        (Assign [Subscript (Name ''df'') (Constant (CStr ''c''))] (Name ''z'') (Some (1, Some 1)))
        (PipelineExtractor ''src'')
     = visit 4300 998
        (Assign [Subscript (Name ''x'') (Constant (CStr ''c''))] (Name ''z'') (Some (1, Some 1)))
        (PipelineExtractor ''src'')
   \<and> visit 4300 998 (Assign [Name ''df''] (Call (Name ''load'') [] []) (Some (1, Some 1)))
        (PipelineExtractor [])
     = Inr ((PipelineExtractor [])\<lparr>fallback_to_llm := True\<rparr>)
   \<and> fallback_to_llm ((PipelineExtractor [])\<lparr>fallback_to_llm := True\<rparr>)
     = (fallback_to_llm (PipelineExtractor [])
         \<or> (''df'' = df_name (PipelineExtractor [])
             \<and> extractor.steps ((PipelineExtractor [])\<lparr>fallback_to_llm := True\<rparr>)
                 = extractor.steps (PipelineExtractor [])))"
proof -
  have a: "visit 4300 998
      (Assign [Name ''x'']
         (Subscript (Name ''y'')
            (Compare (Subscript (Name ''y'') (Constant (CStr ''a''))) [Gt] [Constant (CInt 1)]))
         (Some (1, Some 1))) (PipelineExtractor ''src'')
     = Inr ((PipelineExtractor ''src'')\<lparr>extractor.steps :=
         [\<lparr>kind = ''filter'',
           config = [(''column'', Scalar (CStr ''a'')),
                     (''operator'', Scalar (CStr ''gt'')),
                     (''value'', Scalar (CStr ''1''))]\<rparr>]\<rparr>)"
    by (simp add: visit_minus visit_Assign_Name rhs_step_Compare filter_idiom_Compare
        FILTER_OPS_def py_str_1 add_step_def PipelineExtractor_def)
  have b: "visit 4300 998 (filter_assign ''a'' Gt (CInt 1) (Some (1, Some 1)))
        (PipelineExtractor ''src'')
     = Inr ((PipelineExtractor ''src'')\<lparr>extractor.steps :=
         [\<lparr>kind = ''filter'',
           config = [(''column'', Scalar (CStr ''a'')),
                     (''operator'', Scalar (CStr ''gt'')),
                     (''value'', Scalar (CStr ''1''))]\<rparr>]\<rparr>)"
    by (simp add: filter_assign_def visit_minus visit_Assign_Name rhs_step_Compare
        filter_idiom_Compare FILTER_OPS_def py_str_1 add_step_def PipelineExtractor_def)
  have c: "visit 4300 998
        (Assign [Subscript bb (Constant (CStr ''c''))] (Name ''z'') (Some (1, Some 1)))
        (PipelineExtractor ''src'')
     = Inr ((PipelineExtractor ''src'')\<lparr>extractor.steps :=
         [\<lparr>kind = ''computedColumn'',
           config = [(''newColumnName'', Scalar (CStr ''c'')),
                     (''expression'', Scalar (CStr ''src''))]\<rparr>]\<rparr>)" for bb
  proof -
    have u: "unparse_simple (Some (1, Some 1)) (lines (PipelineExtractor ''src'')) = ''src''"
      by code_simp
    show ?thesis
      by (simp add: visit_minus visit_Assign_Subscript rhs_step_def u add_step_def)
        (simp add: PipelineExtractor_def)
  qed
  have r: "rhs_step 4300 (Call (Name ''load'') [] []) = Inr None"
    by (simp add: rhs_step_def first_some_def read_csv_idiom_def groupby_idiom_def
        agg_idiom_def sort_idiom_def melt_idiom_def)
  have d: "visit 4300 998 (Assign [Name ''df''] (Call (Name ''load'') [] []) (Some (1, Some 1)))
        (PipelineExtractor [])
     = Inr ((PipelineExtractor [])\<lparr>fallback_to_llm := True\<rparr>)"
    by (simp add: visit_minus visit_Assign_Name r generic_visit_def visit_expr_minus leaf_def
        unrecognized_def PipelineExtractor_def)
  show ?thesis
    using a b c [of "Name ''x''"] c [of "Name ''df''"] d
      recognition_by_shape [where lim = 4300 and r = 998 and t = "''df''"
        and v = "Call (Name ''load'') [] []" and pos = "Some (1, Some 1)"
        and self = "PipelineExtractor []"
        and ?self2.0 = "(PipelineExtractor [])\<lparr>fallback_to_llm := True\<rparr>"]
      recognition_by_shape [where lim = 4300 and r = 998 and t = "''x''" and b = "Name ''y''"
        and d = "Name ''y''" and c = "''a''" and op = Gt and k = "CInt 1"
        and pos = "Some (1, Some 1)" and self = "PipelineExtractor ''src''"]
      recognition_by_shape [where lim = 4300 and r = 998 and b = "Name ''df''"
        and ?b2.0 = "Name ''x''" and slc = "Constant (CStr ''c'')" and v = "Name ''z''"
        and pos = "Some (1, Some 1)" and self = "PipelineExtractor ''src''"]
    by simp
qed

section \<open>Failure tiers and the fallback flag\<close>

text \<open>
  C3. If the traversal raises, \<^verbatim>\<open>main\<close> prints exactly the document with no steps and
  \<open>fallbackToLlm\<close> true. That holds whatever the extractor had accumulated: when the
  statements \<open>pre\<close> have been walked without a fault, leaving the extractor \<open>mid\<close> with
  its steps, and the walk of the statements \<open>suf\<close> that follow raises, the output for
  \<open>pre @ suf\<close> is still that document, so none of the steps of \<open>mid\<close> is reported.
\<close>

theorem fault_discards_steps:
  "(visit lim rec (Other (map S body)) (PipelineExtractor source) = Inl e \<longrightarrow>
      main lim rec source (Parsed body) = Printed \<lparr>steps = [], fallbackToLlm = True\<rparr>)
   \<and> (visit lim rec (Other (map S pre)) (PipelineExtractor source) = Inr mid
        \<and> visit lim rec (Other (map S suf)) mid = Inl e \<longrightarrow>
      main lim rec source (Parsed (pre @ suf)) = Printed \<lparr>steps = [], fallbackToLlm = True\<rparr>)"
proof -
  have a: "visit lim rec (Other (map S body)) (PipelineExtractor source) = Inl e \<longrightarrow>
      main lim rec source (Parsed body) = Printed \<lparr>steps = [], fallbackToLlm = True\<rparr>"
    by (simp add: main_Parsed failure_def)
  have b: "main lim rec source (Parsed (pre @ suf))
             = Printed \<lparr>steps = [], fallbackToLlm = True\<rparr>"
    if p: "visit lim rec (Other (map S pre)) (PipelineExtractor source) = Inr mid"
      and s: "visit lim rec (Other (map S suf)) mid = Inl e"
  proof -
    from p have r: "\<not> rec < 3"
      by (simp add: visit_Other split: if_splits)
    from p r have p2: "visit_children lim (rec - 2) (map S pre) (PipelineExtractor source) = Inr mid"
      by (simp add: visit_Other)
    from s r have s2: "visit_children lim (rec - 2) (map S suf) mid = Inl e"
      by (simp add: visit_Other)
    from r p2 s2
    have "visit lim rec (Other (map S (pre @ suf))) (PipelineExtractor source) = Inl e"
      by (simp add: visit_Other visit_children_append)
    then show ?thesis
      by (simp add: main_Parsed failure_def)
  qed
  from a b show ?thesis by blast
qed

theorem fault_discards_steps_witness:
  "visit 4300 998 (Other (map S [read_csv_assign ''a.csv'' (Some (1, Some 1))]))
       (PipelineExtractor ''src'')
     = Inr ((PipelineExtractor ''src'')\<lparr>extractor.steps :=
         [\<lparr>kind = ''dataSource'', config = [(''fileName'', Scalar (CStr ''a.csv''))]\<rparr>]\<rparr>)
   \<and> visit 4300 998
        (Other (map S [filter_assign ''n'' Gt (CInt huge_literal) (Some (2, Some 2))]))
        ((PipelineExtractor ''src'')\<lparr>extractor.steps :=
           [\<lparr>kind = ''dataSource'', config = [(''fileName'', Scalar (CStr ''a.csv''))]\<rparr>]\<rparr>)
     = Inl ValueError
   \<and> main 4300 998 ''src''
        (Parsed ([read_csv_assign ''a.csv'' (Some (1, Some 1))]
                 @ [filter_assign ''n'' Gt (CInt huge_literal) (Some (2, Some 2))]))
     = Printed \<lparr>steps = [], fallbackToLlm = True\<rparr>"
proof -
  have a: "visit 4300 998 (Other (map S [read_csv_assign ''a.csv'' (Some (1, Some 1))]))
       (PipelineExtractor ''src'')
     = Inr ((PipelineExtractor ''src'')\<lparr>extractor.steps :=
         [\<lparr>kind = ''dataSource'', config = [(''fileName'', Scalar (CStr ''a.csv''))]\<rparr>]\<rparr>)"
    by (simp add: visit_Other read_csv_assign_def visit_minus visit_Assign_read_csv
        PipelineExtractor_def)
  have b: "visit 4300 998
        (Other (map S [filter_assign ''n'' Gt (CInt huge_literal) (Some (2, Some 2))]))
        ((PipelineExtractor ''src'')\<lparr>extractor.steps :=
           [\<lparr>kind = ''dataSource'', config = [(''fileName'', Scalar (CStr ''a.csv''))]\<rparr>]\<rparr>)
     = Inl ValueError"
    by (simp add: visit_Other filter_assign_def visit_minus visit_Assign_huge_filter)
  from a b fault_discards_steps [of 4300 998 _ "''src''" ValueError
      "[read_csv_assign ''a.csv'' (Some (1, Some 1))]"
      "(PipelineExtractor ''src'')\<lparr>extractor.steps :=
         [\<lparr>kind = ''dataSource'', config = [(''fileName'', Scalar (CStr ''a.csv''))]\<rparr>]\<rparr>"
      "[filter_assign ''n'' Gt (CInt huge_literal) (Some (2, Some 2))]"]
  show ?thesis by blast
qed




text \<open>
  C1, as the specification states it, fails. In
  \<^verbatim>\<open>df = pd.read_csv("a.csv"); df = x = 5\<close> the second statement assigns to \<open>df\<close> and
  matches no recognizer, yet the program prints \<open>fallbackToLlm\<close> false: an assignment
  with several targets is passed over before any test. And for some scripts there is
  no output field at all: \<^verbatim>\<open>df = df.groupby(b"k")\<close> stores a bytes object in the
  step, and \<^verbatim>\<open>json.dumps\<close> raises \<^verbatim>\<open>TypeError\<close> outside both \<^verbatim>\<open>try\<close> blocks.
\<close>

theorem flag_not_set_by_every_assignment:
  "main 4300 998 ''src''
     (Parsed [read_csv_assign ''a.csv'' (Some (1, Some 1)),
              Assign [Name ''df'', Name ''x''] (Constant (CInt 5)) (Some (2, Some 2))])
     = Printed \<lparr>steps = [\<lparr>type = ''dataSource'',
                           config = [(''fileName'', Scalar (CStr ''a.csv''))]\<rparr>],
                fallbackToLlm = False\<rparr>
   \<and> assigned_unrecognized 4300 ''df''
        (Assign [Name ''df'', Name ''x''] (Constant (CInt 5)) (Some (2, Some 2)))
   \<and> main 4300 998 ''src''
        (Parsed [Assign [Name ''df'']
           (Call (Attribute (Name ''df'') ''groupby'') [Constant (CBytes ''k'' True)] [])
           (Some (1, Some 1))])
     = Escaped TypeError"
proof -
  have a: "main 4300 998 ''src''
     (Parsed [read_csv_assign ''a.csv'' (Some (1, Some 1)),
              Assign [Name ''df'', Name ''x''] (Constant (CInt 5)) (Some (2, Some 2))])
     = Printed \<lparr>steps = [\<lparr>type = ''dataSource'',
                           config = [(''fileName'', Scalar (CStr ''a.csv''))]\<rparr>],
                fallbackToLlm = False\<rparr>"
    by (simp add: main_Parsed visit_Other visit_minus read_csv_assign_def visit_Assign_read_csv
        visit_Assign_multi generic_visit_def visit_expr_minus leaf_def
        PipelineExtractor_def print_json_def first_some_def dumps_raises_def)
  have b: "assigned_unrecognized 4300 ''df''
        (Assign [Name ''df'', Name ''x''] (Constant (CInt 5)) (Some (2, Some 2)))"
    by (simp add: assigned_unrecognized_def rhs_step_def)
  have c: "main 4300 998 ''src''
        (Parsed [Assign [Name ''df'']
           (Call (Attribute (Name ''df'') ''groupby'') [Constant (CBytes ''k'' True)] [])
           (Some (1, Some 1))])
     = Escaped TypeError"
    by (simp add: main_Parsed visit_Other visit_minus visit_Assign_Name rhs_step_def
        read_csv_idiom_def groupby_idiom_def first_some_def add_step_def PipelineExtractor_def
        print_json_def dumps_raises_def Let_def)
  from a b c show ?thesis by blast
qed

text \<open>
  C1, amended. Whenever the program prints a response, its \<open>fallbackToLlm\<close> is true
  if and only if the source failed to parse, or the traversal raised, or some
  statement reached by the walk is an assignment with a single target that matched
  no recognizer of the right-hand side and whose target is the bare name \<open>df\<close> (or is
  a subscript naming a column, with an empty reconstructed text), or the response has
  no steps.
\<close>

theorem fallback_flag_characterised:
  assumes "main lim rec source tree = Printed r"
  shows "fallbackToLlm r =
     (tree = SyntaxError
      \<or> traversal_raises lim rec source tree
      \<or> (\<exists>s\<in>set (visited tree). sets_flag lim (splitlines source) ''df'' s)
      \<or> response.steps r = [])"
proof (cases tree)
  case (Parsed body)
  show ?thesis
  proof (cases "visit lim rec (Other (map S body)) (PipelineExtractor source)")
    case (Inl e)
    with Parsed assms have "r = failure"
      by (simp add: main_Parsed)
    with Parsed Inl show ?thesis
      by (simp add: failure_def traversal_raises_def)
  next
    case (Inr ex)
    from visit_effect(1) [OF Inr]
    have f: "fallback_to_llm ex =
        (\<exists>s\<in>set (child_statements (map S body)). sets_flag lim (splitlines source) ''df'' s)"
      by (simp add: PipelineExtractor_def sets_flag_def)
    from Parsed Inr assms
    have "r = \<lparr>steps = map (\<lambda>s. \<lparr>type = kind s, config = step.config s\<rparr>)
                       (extractor.steps ex),
             fallbackToLlm = (fallback_to_llm ex \<or> extractor.steps ex = [])\<rparr>"
      by (simp add: main_Parsed print_json_Printed)
    with Parsed Inr f show ?thesis
      by (simp add: traversal_raises_def visited_def)
  qed
next
  case SyntaxError
  with assms have "r = failure"
    by (simp add: main_def print_json_failure)
  with SyntaxError show ?thesis
    by (simp add: failure_def)
next
  case (ParseRaised e)
  with assms show ?thesis
    by (simp add: main_def)
qed

theorem fallback_flag_characterised_witness:
  "main 4300 998 ''src''
     (Parsed [read_csv_assign ''a.csv'' (Some (1, Some 1)),
              Assign [Name ''df''] (Call (Name ''load'') [] []) (Some (2, Some 2))])
     = Printed \<lparr>steps = [\<lparr>type = ''dataSource'',
                           config = [(''fileName'', Scalar (CStr ''a.csv''))]\<rparr>],
                fallbackToLlm = True\<rparr>
   \<and> sets_flag 4300 (splitlines ''src'') ''df''
        (Assign [Name ''df''] (Call (Name ''load'') [] []) (Some (2, Some 2)))
   \<and> True =
     (Parsed [read_csv_assign ''a.csv'' (Some (1, Some 1)),
              Assign [Name ''df''] (Call (Name ''load'') [] []) (Some (2, Some 2))] = SyntaxError
      \<or> traversal_raises 4300 998 ''src''
           (Parsed [read_csv_assign ''a.csv'' (Some (1, Some 1)),
              Assign [Name ''df''] (Call (Name ''load'') [] []) (Some (2, Some 2))])
      \<or> (\<exists>s\<in>set (visited (Parsed [read_csv_assign ''a.csv'' (Some (1, Some 1)),
              Assign [Name ''df''] (Call (Name ''load'') [] []) (Some (2, Some 2))])).
            sets_flag 4300 (splitlines ''src'') ''df'' s)
      \<or> [\<lparr>type = ''dataSource'',
            config = [(''fileName'', Scalar (CStr ''a.csv''))]\<rparr>] = [])"
proof -
  have a: "main 4300 998 ''src''
     (Parsed [read_csv_assign ''a.csv'' (Some (1, Some 1)),
              Assign [Name ''df''] (Call (Name ''load'') [] []) (Some (2, Some 2))])
     = Printed \<lparr>steps = [\<lparr>type = ''dataSource'',
                           config = [(''fileName'', Scalar (CStr ''a.csv''))]\<rparr>],
                fallbackToLlm = True\<rparr>"
    by (simp add: main_Parsed visit_Other visit_minus read_csv_assign_def visit_Assign_read_csv)
      (simp add: visit_Assign_Name rhs_step_load generic_visit_def visit_expr_minus leaf_def
        unrecognized_def PipelineExtractor_def print_json_def first_some_def dumps_raises_def)
  have b: "sets_flag 4300 (splitlines ''src'') ''df''
        (Assign [Name ''df''] (Call (Name ''load'') [] []) (Some (2, Some 2)))"
    by (simp add: sets_flag_def rhs_step_load)
  from a b fallback_flag_characterised [OF a] show ?thesis
    by simp
qed

end
